theory Spec2Isabelle
  imports Complex_Main
begin

section \<open>Python values used by the script\<close>

subsection \<open>Strings\<close>

text \<open>
  A Python \<open>str\<close> is modelled as an Isabelle \<open>string\<close>, each character standing for
  the code point of its number, so that the strings of the model are the Python strings
  over the code points below 256. On these, \<open>str.lower\<close> works character by
  character: it adds 32 to the code points 65 to 90 (\<open>A\<close> to \<open>Z\<close>) and to 192 to 222
  except 215 (the capital letters of Latin-1) and leaves every other one alone.
  \<open>str.strip\<close> removes from both ends the characters for which \<open>str.isspace\<close>
  holds: the code points 9 to 13, 28 to 32, 133 and 160. \<open>sub in s\<close> is the test for a
  contiguous substring.
\<close>

definition ascii_uppercase :: string where
  "ascii_uppercase = ''ABCDEFGHIJKLMNOPQRSTUVWXYZ''"

definition ascii_lowercase :: string where
  "ascii_lowercase = ''abcdefghijklmnopqrstuvwxyz''"

definition latin1_uppercase :: string where
  "latin1_uppercase =
     [CHR 0xC0, CHR 0xC1, CHR 0xC2, CHR 0xC3, CHR 0xC4, CHR 0xC5, CHR 0xC6, CHR 0xC7,
      CHR 0xC8, CHR 0xC9, CHR 0xCA, CHR 0xCB, CHR 0xCC, CHR 0xCD, CHR 0xCE, CHR 0xCF,
      CHR 0xD0, CHR 0xD1, CHR 0xD2, CHR 0xD3, CHR 0xD4, CHR 0xD5, CHR 0xD6,
      CHR 0xD8, CHR 0xD9, CHR 0xDA, CHR 0xDB, CHR 0xDC, CHR 0xDD, CHR 0xDE]"

definition latin1_lowercase :: string where
  "latin1_lowercase =
     [CHR 0xE0, CHR 0xE1, CHR 0xE2, CHR 0xE3, CHR 0xE4, CHR 0xE5, CHR 0xE6, CHR 0xE7,
      CHR 0xE8, CHR 0xE9, CHR 0xEA, CHR 0xEB, CHR 0xEC, CHR 0xED, CHR 0xEE, CHR 0xEF,
      CHR 0xF0, CHR 0xF1, CHR 0xF2, CHR 0xF3, CHR 0xF4, CHR 0xF5, CHR 0xF6,
      CHR 0xF8, CHR 0xF9, CHR 0xFA, CHR 0xFB, CHR 0xFC, CHR 0xFD, CHR 0xFE]"

definition whitespace :: string where
  "whitespace = [CHR 0x09, CHR 0x0A, CHR 0x0B, CHR 0x0C, CHR 0x0D,
                 CHR 0x1C, CHR 0x1D, CHR 0x1E, CHR 0x1F, CHR 0x20,
                 CHR 0x85, CHR 0xA0]"

definition lower_char :: "char \<Rightarrow> char" where
  "lower_char c =
     (case map_of (zip (ascii_uppercase @ latin1_uppercase)
                       (ascii_lowercase @ latin1_lowercase)) c of
        Some d \<Rightarrow> d
      | None \<Rightarrow> c)"

definition lower :: "string \<Rightarrow> string" where
  "lower s = map lower_char s"

definition isspace :: "char \<Rightarrow> bool" where
  "isspace c = (c \<in> set whitespace)"

definition strip :: "string \<Rightarrow> string" where
  "strip s = rev (dropWhile isspace (rev (dropWhile isspace s)))"

fun startswith :: "string \<Rightarrow> string \<Rightarrow> bool" where
  "startswith s [] = True"
| "startswith [] (p # ps) = False"
| "startswith (c # cs) (p # ps) = (c = p \<and> startswith cs ps)"

fun contains :: "string \<Rightarrow> string \<Rightarrow> bool" where
  "contains sub [] = (sub = [])"
| "contains sub (c # cs) = (startswith (c # cs) sub \<or> contains sub cs)"

text \<open>\<open>s.split(sep)\<close> for a one-character separator: never empty, keeps empty fields.\<close>

fun split :: "char \<Rightarrow> string \<Rightarrow> string list" where
  "split sep [] = [[]]"
| "split sep (c # cs) =
     (if c = sep then [] # split sep cs
      else (case split sep cs of [] \<Rightarrow> [[c]] | f # fs \<Rightarrow> (c # f) # fs))"

text \<open>\<open>s.rfind(c)\<close>: the highest index of \<open>c\<close> in \<open>s\<close>, or \<open>-1\<close>.\<close>

definition rfind :: "char \<Rightarrow> string \<Rightarrow> int" where
  "rfind c s =
     (if c \<in> set s then int (length s) - 1 - int (length (takeWhile (\<lambda>x. x \<noteq> c) (rev s)))
      else - 1)"

text \<open>\<open>sep.join(xs)\<close>.\<close>

fun join :: "string \<Rightarrow> string list \<Rightarrow> string" where
  "join sep [] = []"
| "join sep [x] = x"
| "join sep (x # y # ys) = x @ sep @ join sep (y # ys)"

subsection \<open>Exceptions\<close>

text \<open>
  The two levels of Python's exception hierarchy that the script's handlers tell apart:
  \<open>exception\<close> holds the instances of class \<open>Exception\<close> (each with its message,
  \<open>CalledProcessError\<close> also with the captured \<open>stderr\<close>), \<open>base_exception\<close> adds the
  two that derive from \<open>BaseException\<close> only. A clause \<open>except Exception as e\<close> is a
  match on the constructor \<open>Exception\<close>; \<open>sys.exit(n)\<close> raises \<open>SystemExit n\<close>, and a
  \<open>SystemExit n\<close> that leaves \<open>main\<close> ends the process with status \<open>n\<close>.
\<close>

datatype exception =
    FileNotFoundError string
  | ValueError string
  | CalledProcessError string string
  | AttributeError string
  | TypeError string
  | OtherException string

datatype base_exception =
    KeyboardInterrupt
  | SystemExit int
  | Exception exception

fun str_exception :: "exception \<Rightarrow> string" where
  "str_exception (FileNotFoundError m) = m"
| "str_exception (ValueError m) = m"
| "str_exception (CalledProcessError m err) = m"
| "str_exception (AttributeError m) = m"
| "str_exception (TypeError m) = m"
| "str_exception (OtherException m) = m"

text \<open>An attribute of a Python object: absent (\<open>hasattr\<close> is false) or present.\<close>

datatype 'a attr = NoAttr | Attr 'a

subsection \<open>pathlib paths (POSIX flavour)\<close>

text \<open>
  \<open>Path(s)\<close> keeps a root and the list of components; empty components and \<open>.\<close> are
  dropped when the string is parsed. \<open>suffix\<close> and \<open>stem\<close> cut the final component at
  its last dot, provided that dot is neither its first nor its last character.
\<close>

record path =
  root :: string
  parts :: "string list"

definition Path :: "string \<Rightarrow> path" where
  "Path s =
     \<lparr>root = (if startswith s ''//'' \<and> \<not> startswith s ''///'' then ''//''
              else if startswith s ''/'' then ''/'' else ''''),
      parts = filter (\<lambda>p. p \<noteq> '''' \<and> p \<noteq> ''.'') (split (CHR ''/'') s)\<rparr>"

definition name :: "path \<Rightarrow> string" where
  "name p = (if parts p = [] then '''' else last (parts p))"

definition suffix :: "path \<Rightarrow> string" where
  "suffix p =
     (let n = name p; i = rfind (CHR ''.'') n
      in if 0 < i \<and> i < int (length n) - 1 then drop (nat i) n else '''')"

definition stem :: "path \<Rightarrow> string" where
  "stem p =
     (let n = name p; i = rfind (CHR ''.'') n
      in if 0 < i \<and> i < int (length n) - 1 then take (nat i) n else n)"

definition parent :: "path \<Rightarrow> path" where
  "parent p = (if parts p = [] then p else p\<lparr>parts := butlast (parts p)\<rparr>)"

definition joinpath :: "path \<Rightarrow> string \<Rightarrow> path" where
  "joinpath p s =
     (let q = Path s in if root q \<noteq> '''' then q else p\<lparr>parts := parts p @ parts q\<rparr>)"

definition str_path :: "path \<Rightarrow> string" where
  "str_path p =
     (if root p = '''' \<and> parts p = [] then ''.'' else root p @ join ''/'' (parts p))"

section \<open>Model discovery at import time (lines 33 to 55)\<close>

text \<open>
  A listed model object as the script looks at it: \<open>name\<close> may be absent or \<open>None\<close>,
  \<open>supported_generation_methods\<close> may be absent (then \<open>getattr\<close> gives \<open>[]\<close>) or
  \<open>None\<close>.
\<close>

record model =
  model_name :: "string option attr"
  supported_generation_methods :: "string list option attr"

definition quoted :: "string \<Rightarrow> string" where
  "quoted s = CHR 0x27 # s @ [CHR 0x27]"

definition no_attribute :: "string \<Rightarrow> string \<Rightarrow> exception" where
  "no_attribute cls a =
     AttributeError (quoted cls @ '' object has no attribute '' @ quoted a)"

text \<open>
  The \<open>for model in models\<close> loop, with \<open>gemini_models\<close> as accumulator. Calling
  \<open>.lower()\<close> on a \<open>None\<close> name and testing \<open>in\<close> on \<open>None\<close> methods raise.
\<close>

fun gemini_loop :: "model list \<Rightarrow> string list \<Rightarrow> base_exception + string list" where
  "gemini_loop [] gemini_models = Inr gemini_models"
| "gemini_loop (m # ms) gemini_models =
     (case model_name m of
        NoAttr \<Rightarrow> gemini_loop ms gemini_models
      | Attr None \<Rightarrow> Inl (Exception (no_attribute ''NoneType'' ''lower''))
      | Attr (Some n) \<Rightarrow>
          if contains ''gemini'' (lower n) then
            (case supported_generation_methods m of
               NoAttr \<Rightarrow> gemini_loop ms (gemini_models @ [n])
             | Attr None \<Rightarrow>
                 Inl (Exception (TypeError ''argument of type NoneType is not iterable''))
             | Attr (Some methods) \<Rightarrow>
                 if ''generateContent'' \<in> set methods \<or> methods = []
                 then gemini_loop ms (gemini_models @ [n])
                 else gemini_loop ms gemini_models)
          else gemini_loop ms gemini_models)"

text \<open>The body of the \<open>try\<close>, given what \<open>list(client.models.list())\<close> did.\<close>

definition resolve_try :: "base_exception + model list \<Rightarrow> base_exception + string option" where
  "resolve_try listing =
     (case listing of
        Inl e \<Rightarrow> Inl e
      | Inr models \<Rightarrow>
          (case gemini_loop models [] of
             Inl e \<Rightarrow> Inl e
           | Inr gemini_models \<Rightarrow>
               (case gemini_models of
                  g # gs \<Rightarrow> Inr (Some g)
                | [] \<Rightarrow>
                    (case models of
                       [] \<Rightarrow> Inr (Some ''gemini-pro'')
                     | m # ms \<Rightarrow>
                         (case model_name m of
                            NoAttr \<Rightarrow> Inl (Exception (no_attribute ''Model'' ''name''))
                          | Attr n \<Rightarrow> Inr n)))))"

text \<open>
  The whole statement: \<open>except Exception\<close> sets the constant. The value is what the
  global \<open>AVAILABLE_MODEL\<close> holds afterwards (\<open>None\<close> when the first model's name is
  \<open>None\<close>); \<open>Inl\<close> is an exception that leaves the module.
\<close>

definition AVAILABLE_MODEL :: "base_exception + model list \<Rightarrow> base_exception + string option" where
  "AVAILABLE_MODEL listing =
     (case resolve_try listing of
        Inl (Exception e) \<Rightarrow> Inr (Some ''gemini-pro'')
      | r \<Rightarrow> r)"

section \<open>The environment and the effects of a run\<close>

text \<open>The answer of \<open>generate_content\<close>: reading \<open>response.text\<close> may itself raise.\<close>

record api_outcome =
  api_duration :: real
  api_result :: "base_exception + (base_exception + string option)"

text \<open>The dictionary \<open>run_test\<close> returns, with its five fixed keys.\<close>

record results =
  question :: string
  json_response :: string
  json_time :: real
  toon_response :: string
  toon_time :: real

text \<open>What the script prints, one constructor for each \<open>print\<close> statement.\<close>

datatype msg =
    MsgBanner
  | MsgUsage
  | MsgSampleQuestions
  | MsgSample nat string
  | MsgRule
  | MsgNoQuestion
  | MsgInterrupted
  | MsgError string
  | MsgConverting string
  | MsgConverted string
  | MsgConvertError
  | MsgStderr string
  | MsgNpxNotFound
  | MsgLoading
  | MsgJsonSize nat
  | MsgToonSize nat
  | MsgTestingQuestion string
  | MsgQueryingJson
  | MsgQueryingToon
  | MsgResponseTime real
  | MsgTestResults
  | MsgQuestionHeading
  | MsgJsonResponse real
  | MsgToonResponse real
  | MsgDashes
  | MsgLine string
  | MsgComparison
  | MsgIdentical
  | MsgDiffer
  | MsgManualReview
  | MsgSimilar real
  | MsgToonFaster real
  | MsgJsonFaster real
  | MsgSaved path

text \<open>
  Every contact with the outside is an event of the trace. \<open>GenerateContent\<close> and
  \<open>Sleep\<close> carry the time at which they start.
\<close>

datatype event =
    Print msg
  | ReadInput
  | Exists path
  | SubprocessRun "string list"
  | ReadFile path
  | GenerateContent real "string option" string
  | Sleep real real
  | WriteFile path results

text \<open>
  The environment answers each call. An answer \<open>Inl e\<close> is the exception the call
  raises: \<open>KeyboardInterrupt\<close> when the user interrupts the process while it waits in
  that call. \<open>w_model\<close> is the value of the global \<open>AVAILABLE_MODEL\<close>,
  \<open>w_generate_content w t m p\<close> is what a call started at time \<open>t\<close> does and how long
  it takes, and \<open>w_sleep w t d\<close> is the time a \<open>time.sleep(d)\<close> started at \<open>t\<close> takes.

  The state of a run is the clock that \<open>time.time()\<close> reads and the trace so far. The
  clock moves during the API calls and the sleep only, the two places where the script
  looks at it. Printing adds to the trace and is taken never to fail; the process can
  be interrupted where it waits for the environment, not between two prints. The times
  are real numbers, where Python has floats.
\<close>

record world =
  w_argv :: "string list"
  w_model :: "string option"
  w_input :: "base_exception + string"
  w_exists :: "path \<Rightarrow> bool"
  w_subprocess_run :: "string list \<Rightarrow> base_exception + unit"
  w_read :: "path \<Rightarrow> base_exception + string"
  w_generate_content :: "real \<Rightarrow> string option \<Rightarrow> string \<Rightarrow> api_outcome"
  w_sleep :: "real \<Rightarrow> real \<Rightarrow> base_exception + real"
  w_write :: "path \<Rightarrow> results \<Rightarrow> base_exception + unit"

record state =
  now :: real
  trace :: "event list"

definition emit :: "event \<Rightarrow> state \<Rightarrow> state" where
  "emit e s = s\<lparr>trace := trace s @ [e]\<rparr>"

definition prints :: "msg list \<Rightarrow> state \<Rightarrow> state" where
  "prints ms s = s\<lparr>trace := trace s @ map Print ms\<rparr>"

section \<open>class TOONParsingTest\<close>

record TOONParsingTest =
  json_file_path :: path
  toon_file_path :: "path option"
  json_content :: "string option"
  toon_content :: "string option"

text \<open>\<open>__init__\<close>: the object, or the exception the constructor raises.\<close>

definition init :: "world \<Rightarrow> string \<Rightarrow> state \<Rightarrow> (base_exception + TOONParsingTest) \<times> state" where
  "init w json_file s =
     (let self = \<lparr>json_file_path = Path json_file, toon_file_path = None,
                  json_content = None, toon_content = None\<rparr>;
          s1 = emit (Exists (json_file_path self)) s
      in if \<not> w_exists w (json_file_path self) then
           (Inl (Exception (FileNotFoundError (''JSON file not found: '' @ json_file))), s1)
         else if \<not> (suffix (json_file_path self) = ''.json'') then
           (Inl (Exception (ValueError ''File must have .json extension'')), s1)
         else (Inr self, s1))"

text \<open>The argument list handed to \<open>subprocess.run\<close>.\<close>

definition converter_args :: "path \<Rightarrow> path \<Rightarrow> string list" where
  "converter_args input_path output_path =
     [''npx'', ''@toon-format/cli'', str_path input_path, ''-o'', str_path output_path]"

text \<open>
  \<open>convert_to_toon\<close> returns the output path and the object with \<open>toon_file_path\<close>
  set. The two \<open>except\<close> clauses end in \<open>sys.exit(1)\<close>; any other exception passes.
\<close>

definition convert_to_toon ::
  "world \<Rightarrow> TOONParsingTest \<Rightarrow> state \<Rightarrow> (base_exception + path \<times> TOONParsingTest) \<times> state" where
  "convert_to_toon w self s =
     (let s1 = prints [MsgConverting (name (json_file_path self))] s;
          output_name = stem (json_file_path self) @ ''_output.toon'';
          output_path = joinpath (parent (json_file_path self)) output_name;
          self' = self\<lparr>toon_file_path := Some output_path\<rparr>;
          args = converter_args (json_file_path self) output_path;
          s2 = emit (SubprocessRun args) s1
      in case w_subprocess_run w args of
           Inr u \<Rightarrow> (Inr (output_path, self'), prints [MsgConverted (name output_path)] s2)
         | Inl (Exception (CalledProcessError m err)) \<Rightarrow>
             (Inl (SystemExit 1), prints [MsgConvertError, MsgStderr err] s2)
         | Inl (Exception (FileNotFoundError m)) \<Rightarrow>
             (Inl (SystemExit 1), prints [MsgNpxNotFound] s2)
         | Inl e \<Rightarrow> (Inl e, s2))"

definition load_contents ::
  "world \<Rightarrow> TOONParsingTest \<Rightarrow> state \<Rightarrow> (base_exception + TOONParsingTest) \<times> state" where
  "load_contents w self s =
     (let s1 = emit (ReadFile (json_file_path self)) (prints [MsgLoading] s)
      in case w_read w (json_file_path self) of
           Inl e \<Rightarrow> (Inl e, s1)
         | Inr jc \<Rightarrow>
             (case toon_file_path self of
                None \<Rightarrow>
                  (Inl (Exception (TypeError
                     ''expected str, bytes or os.PathLike object, not NoneType'')), s1)
              | Some tp \<Rightarrow>
                  (let s2 = emit (ReadFile tp) s1
                   in case w_read w tp of
                        Inl e \<Rightarrow> (Inl e, s2)
                      | Inr tc \<Rightarrow>
                          (Inr (self\<lparr>json_content := Some jc, toon_content := Some tc\<rparr>),
                           prints [MsgJsonSize (length jc), MsgToonSize (length tc)] s2))))"

text \<open>The prompt of \<open>query_llm\<close>; an f-string shows \<open>None\<close> as the text \<open>None\<close>.\<close>

definition format_str :: "string option \<Rightarrow> string" where
  "format_str v = (case v of None \<Rightarrow> ''None'' | Some t \<Rightarrow> t)"

definition build_prompt :: "string option \<Rightarrow> string \<Rightarrow> string \<Rightarrow> string" where
  "build_prompt data_content data_format question' =
     ''You are a data analyst. I will provide you with data in '' @ data_format
       @ '' format.\<newline>\<newline>DATA:\<newline>'' @ format_str data_content
       @ ''\<newline>\<newline>TASK: '' @ question'
       @ ''\<newline>\<newline>Please analyze the data and provide a precise answer. ''
       @ ''Be specific and include all relevant details.''"

text \<open>
  The body of the \<open>try\<close> in \<open>query_llm\<close>. The call starts at \<open>start_time\<close> and the
  clock has moved on by its duration when it returns or raises. \<open>.strip()\<close> on a
  \<open>None\<close> text raises inside the \<open>try\<close>.
\<close>

definition query_llm_try ::
  "world \<Rightarrow> string \<Rightarrow> state \<Rightarrow> (base_exception + string \<times> real) \<times> state" where
  "query_llm_try w prompt s =
     (let start_time = now s;
          r = w_generate_content w start_time (w_model w) prompt;
          s1 = (emit (GenerateContent start_time (w_model w) prompt) s)
                 \<lparr>now := start_time + api_duration r\<rparr>
      in case api_result r of
           Inl e \<Rightarrow> (Inl e, s1)
         | Inr response_text \<Rightarrow>
             (let end_time = now s1;
                  response_time = end_time - start_time
              in case response_text of
                   Inl e \<Rightarrow> (Inl e, s1)
                 | Inr None \<Rightarrow> (Inl (Exception (no_attribute ''NoneType'' ''strip'')), s1)
                 | Inr (Some t) \<Rightarrow> (Inr (strip t, response_time), s1)))"

definition query_llm ::
  "world \<Rightarrow> string option \<Rightarrow> string \<Rightarrow> string \<Rightarrow> state
     \<Rightarrow> (base_exception + string \<times> real) \<times> state" where
  "query_llm w data_content data_format question' s =
     (case query_llm_try w (build_prompt data_content data_format question') s of
        (Inl (Exception e), s1) \<Rightarrow> (Inr (''Error: '' @ str_exception e, 0), s1)
      | r \<Rightarrow> r)"

definition run_test ::
  "world \<Rightarrow> TOONParsingTest \<Rightarrow> string \<Rightarrow> state \<Rightarrow> (base_exception + results) \<times> state" where
  "run_test w self question' s =
     (let s1 = prints [MsgRule, MsgTestingQuestion question', MsgRule, MsgQueryingJson] s
      in case query_llm w (json_content self) ''JSON'' question' s1 of
           (Inl e, s2) \<Rightarrow> (Inl e, s2)
         | (Inr (json_response', json_time'), s2) \<Rightarrow>
             (let s3 = emit (Sleep (now s2) 2) (prints [MsgResponseTime json_time'] s2)
              in case w_sleep w (now s2) 2 of
                   Inl e \<Rightarrow> (Inl e, s3)
                 | Inr slept \<Rightarrow>
                     (let s4 = prints [MsgQueryingToon] (s3\<lparr>now := now s3 + slept\<rparr>)
                      in case query_llm w (toon_content self) ''TOON'' question' s4 of
                           (Inl e, s5) \<Rightarrow> (Inl e, s5)
                         | (Inr (toon_response', toon_time'), s5) \<Rightarrow>
                             (Inr \<lparr>question = question',
                                   json_response = json_response', json_time = json_time',
                                   toon_response = toon_response', toon_time = toon_time'\<rparr>,
                              prints [MsgResponseTime toon_time'] s5))))"

text \<open>\<open>display_results\<close> only prints: the messages, in order.\<close>

definition display_results :: "results \<Rightarrow> msg list" where
  "display_results r =
     [MsgRule, MsgTestResults, MsgRule, MsgQuestionHeading, MsgLine (question r),
      MsgJsonResponse (json_time r), MsgDashes]
     @ map MsgLine (split (CHR ''\<newline>'') (json_response r))
     @ [MsgToonResponse (toon_time r), MsgDashes]
     @ map MsgLine (split (CHR ''\<newline>'') (toon_response r))
     @ [MsgRule, MsgComparison, MsgRule]
     @ (if lower (json_response r) = lower (toon_response r) then [MsgIdentical]
        else [MsgDiffer, MsgManualReview])
     @ (let time_diff = json_time r - toon_time r
        in if \<bar>time_diff\<bar> < 0.5 then [MsgSimilar \<bar>time_diff\<bar>]
           else if time_diff > 0 then [MsgToonFaster time_diff]
           else [MsgJsonFaster \<bar>time_diff\<bar>])
     @ [MsgRule]"

definition save_results ::
  "world \<Rightarrow> TOONParsingTest \<Rightarrow> results \<Rightarrow> string \<Rightarrow> state \<Rightarrow> (base_exception + unit) \<times> state" where
  "save_results w self r output_file s =
     (let output_path = joinpath (parent (json_file_path self)) output_file;
          s1 = emit (WriteFile output_path r) s
      in case w_write w output_path r of
           Inl e \<Rightarrow> (Inl e, s1)
         | Inr u \<Rightarrow> (Inr (), prints [MsgSaved output_path] s1))"

section \<open>The command line\<close>

definition get_sample_questions :: "string list" where
  "get_sample_questions =
     [''Extract all entries where age is greater than 24 and list their names.'',
      ''Find the department with the most active projects and list the team leads.'',
      ''What is the total count of active projects across all departments?'',
      ''List all unique job titles in the dataset.'',
      ''Find the person with the highest age and provide all their details.'']"

text \<open>Lines 266 to 278: the question from the arguments, or asked for.\<close>

definition get_question :: "world \<Rightarrow> state \<Rightarrow> (base_exception + string) \<times> state" where
  "get_question w s =
     (if length (w_argv w) \<ge> 3 then (Inr (join '' '' (drop 2 (w_argv w))), s)
      else
        (let s1 = emit ReadInput
                    (prints ([MsgSampleQuestions]
                             @ map (\<lambda>(i, q). MsgSample i q)
                                 (zip [1..<Suc (length get_sample_questions)] get_sample_questions)
                             @ [MsgRule]) s)
         in case w_input w of
              Inl e \<Rightarrow> (Inl e, s1)
            | Inr line \<Rightarrow>
                (let question' = strip line
                 in if question' = [] then (Inl (SystemExit 1), prints [MsgNoQuestion] s1)
                    else (Inr question', s1))))"

text \<open>Lines 282 to 297: the body of the \<open>try\<close> in \<open>main\<close>.\<close>

definition main_try :: "world \<Rightarrow> string \<Rightarrow> string \<Rightarrow> state \<Rightarrow> (base_exception + unit) \<times> state" where
  "main_try w json_file question' s =
     (case init w json_file s of
        (Inl e, s1) \<Rightarrow> (Inl e, s1)
      | (Inr test, s1) \<Rightarrow>
          (case convert_to_toon w test s1 of
             (Inl e, s2) \<Rightarrow> (Inl e, s2)
           | (Inr (p, test2), s2) \<Rightarrow>
               (case load_contents w test2 s2 of
                  (Inl e, s3) \<Rightarrow> (Inl e, s3)
                | (Inr test3, s3) \<Rightarrow>
                    (case run_test w test3 question' s3 of
                       (Inl e, s4) \<Rightarrow> (Inl e, s4)
                     | (Inr r, s4) \<Rightarrow>
                         save_results w test3 r ''test_results.json''
                           (prints (display_results r) s4)))))"

text \<open>
  \<open>main\<close>: \<open>Inr ()\<close> when it returns, \<open>Inl e\<close> when \<open>e\<close> leaves it. The usage check and
  the prompt for the question are outside the \<open>try\<close>.
\<close>

definition main :: "world \<Rightarrow> state \<Rightarrow> (base_exception + unit) \<times> state" where
  "main w s =
     (let s1 = prints [MsgBanner] s
      in if length (w_argv w) < 2 then (Inl (SystemExit 1), prints [MsgUsage] s1)
         else
           (let json_file = w_argv w ! 1
            in case get_question w s1 of
                 (Inl e, s2) \<Rightarrow> (Inl e, s2)
               | (Inr question', s2) \<Rightarrow>
                   (case main_try w json_file question' s2 of
                      (Inl KeyboardInterrupt, s3) \<Rightarrow>
                        (Inl (SystemExit 0), prints [MsgInterrupted] s3)
                    | (Inl (Exception e), s3) \<Rightarrow>
                        (Inl (SystemExit 1), prints [MsgError (str_exception e)] s3)
                    | r \<Rightarrow> r)))"

section \<open>Observing a run\<close>

text \<open>
  The events of a trace that are not console output, the state a process starts in, and
  the two conditions on a listed model that the discovery loop tests.
\<close>

fun is_Print :: "event \<Rightarrow> bool" where
  "is_Print (Print m) = True"
| "is_Print e = False"

fun is_SubprocessRun :: "event \<Rightarrow> bool" where
  "is_SubprocessRun (SubprocessRun a) = True"
| "is_SubprocessRun e = False"

fun is_WriteFile :: "event \<Rightarrow> bool" where
  "is_WriteFile (WriteFile p r) = True"
| "is_WriteFile e = False"

fun is_GenerateContent :: "event \<Rightarrow> bool" where
  "is_GenerateContent (GenerateContent t m p) = True"
| "is_GenerateContent e = False"

definition effects :: "event list \<Rightarrow> event list" where
  "effects tr = filter (\<lambda>e. \<not> is_Print e) tr"

definition start :: "real \<Rightarrow> state" where
  "start t = \<lparr>now = t, trace = []\<rparr>"

text \<open>A model the loop appends: a name with \<open>gemini\<close> in it, methods absent, empty or
  with \<open>generateContent\<close>.\<close>

definition eligible :: "model \<Rightarrow> bool" where
  "eligible m =
     (case model_name m of
        Attr (Some n) \<Rightarrow>
          contains ''gemini'' (lower n) \<and>
          (case supported_generation_methods m of
             NoAttr \<Rightarrow> True
           | Attr None \<Rightarrow> False
           | Attr (Some methods) \<Rightarrow> ''generateContent'' \<in> set methods \<or> methods = [])
      | _ \<Rightarrow> False)"

text \<open>A model on which the loop cannot raise: neither attribute is \<open>None\<close>.\<close>

definition well_formed :: "model \<Rightarrow> bool" where
  "well_formed m =
     (model_name m \<noteq> Attr None \<and> supported_generation_methods m \<noteq> Attr None)"

definition the_name :: "model \<Rightarrow> string" where
  "the_name m = (case model_name m of Attr (Some n) \<Rightarrow> n | _ \<Rightarrow> [])"


text \<open>Sample data for the instances below.\<close>

definition text_bison :: model where
  "text_bison = \<lparr>model_name = Attr (Some ''models/text-bison''),
                 supported_generation_methods = Attr (Some [''generateText''])\<rparr>"

definition gemini_flash :: model where
  "gemini_flash = \<lparr>model_name = Attr (Some ''models/Gemini-flash''),
                   supported_generation_methods = NoAttr\<rparr>"

definition answer :: "string option \<Rightarrow> api_outcome" where
  "answer t = \<lparr>api_duration = 1, api_result = Inr (Inr t)\<rparr>"

definition failure :: "base_exception \<Rightarrow> api_outcome" where
  "failure e = \<lparr>api_duration = 1, api_result = Inl e\<rparr>"

definition quiet_world :: world where
  "quiet_world =
     \<lparr>w_argv = [''script.py'', ''dir/data.json''],
      w_model = Some ''gemini-pro'',
      w_input = Inr ''  '',
      w_exists = (\<lambda>p. True),
      w_subprocess_run = (\<lambda>args. Inr ()),
      w_read = (\<lambda>p. Inr ''{}''),
      w_generate_content = (\<lambda>t m p. answer (Some '' 42 '')),
      w_sleep = (\<lambda>t d. Inr d),
      w_write = (\<lambda>p r. Inr ())\<rparr>"

definition sample_test :: TOONParsingTest where
  "sample_test =
     \<lparr>json_file_path = Path ''dir/data.json'',
      toon_file_path = Some (Path ''dir/data_output.toon''),
      json_content = Some ''{}'',
      toon_content = Some ''x''\<rparr>"

text \<open>The question on the command line; the first API call fails; the user interrupts
  the first API call.\<close>

definition asking_world :: world where
  "asking_world = quiet_world\<lparr>w_argv := [''script.py'', ''dir/data.json'', ''How'', ''many?'']\<rparr>"

definition flaky_world :: world where
  "flaky_world =
     asking_world\<lparr>w_generate_content :=
       (\<lambda>t m p. if t = 0 then failure (Exception (OtherException ''503''))
                else answer (Some '' 42 ''))\<rparr>"

definition interrupted_world :: world where
  "interrupted_world =
     asking_world\<lparr>w_generate_content := (\<lambda>t m p. failure KeyboardInterrupt)\<rparr>"

text \<open>The user interrupts the process while it waits at the prompt for the question.\<close>

definition prompt_interrupt_world :: world where
  "prompt_interrupt_world = quiet_world\<lparr>w_input := Inl KeyboardInterrupt\<rparr>"

text \<open>The user interrupts the process while it writes the result file.\<close>

definition late_interrupt_world :: world where
  "late_interrupt_world = asking_world\<lparr>w_write := (\<lambda>p r. Inl KeyboardInterrupt)\<rparr>"

section \<open>Basic facts\<close>

lemmas str_simps =
  lower_def lower_char_def ascii_uppercase_def ascii_lowercase_def
  latin1_uppercase_def latin1_lowercase_def isspace_def whitespace_def strip_def

lemma trace_emit [simp]: "trace (emit e s) = trace s @ [e]" "now (emit e s) = now s"
  by (simp_all add: emit_def)

lemma trace_prints [simp]:
  "trace (prints ms s) = trace s @ map Print ms" "now (prints ms s) = now s"
  by (simp_all add: prints_def)

lemma effects_append [simp]: "effects (xs @ ys) = effects xs @ effects ys"
  by (simp add: effects_def)

lemma effects_Cons [simp]:
  "effects (e # es) = (if is_Print e then effects es else e # effects es)"
  "effects [] = []"
  by (simp_all add: effects_def)

lemma effects_Print [simp]: "effects (map Print ms) = []"
  by (induction ms) simp_all

lemma effects_Print_comp [simp]: "effects (map (Print \<circ> f) xs) = []"
  by (induction xs) simp_all

lemma filter_Print_comp [simp]:
  "filter is_WriteFile (map (Print \<circ> f) xs) = []"
  "filter is_SubprocessRun (map (Print \<circ> f) xs) = []"
  "filter is_GenerateContent (map (Print \<circ> f) xs) = []"
  by (induction xs) simp_all

lemma filter_Print [simp]:
  "filter is_WriteFile (map Print ms) = []"
  "filter is_SubprocessRun (map Print ms) = []"
  "filter is_GenerateContent (map Print ms) = []"
  by (induction ms) simp_all

lemma lower_eq_iff:
  "lower a = lower b \<longleftrightarrow> list_all2 (\<lambda>c d. lower_char c = lower_char d) a b"
  unfolding lower_def
  by (induction a arbitrary: b) (auto simp: list_all2_Cons1)

lemma stem_suffix: "stem p @ suffix p = name p"
  by (simp add: stem_def suffix_def Let_def)

text \<open>What \<open>strip\<close> leaves: the text between a whitespace prefix and a whitespace
  suffix, with no whitespace at either end.\<close>

lemma strip_spec:
  "\<exists>pre suf. t = pre @ strip t @ suf \<and> list_all isspace pre \<and> list_all isspace suf
     \<and> (strip t = [] \<or> (\<not> isspace (hd (strip t)) \<and> \<not> isspace (last (strip t))))"
proof -
  define u where "u = dropWhile isspace t"
  define v where "v = dropWhile isspace (rev u)"
  have st: "strip t = rev v" by (simp add: strip_def u_def v_def)
  have t: "t = takeWhile isspace t @ u" by (simp add: u_def)
  have "rev u = takeWhile isspace (rev u) @ v" by (simp add: v_def)
  hence "rev (rev u) = rev (takeWhile isspace (rev u) @ v)" by simp
  hence u: "u = rev v @ rev (takeWhile isspace (rev u))" by simp
  have p1: "list_all isspace (takeWhile isspace t)"
    by (simp add: list_all_iff) (meson set_takeWhileD)
  have p2: "list_all isspace (rev (takeWhile isspace (rev u)))"
    by (simp add: list_all_iff) (meson set_takeWhileD)
  have ends: "\<not> isspace (hd (rev v)) \<and> \<not> isspace (last (rev v))" if ne: "rev v \<noteq> []"
  proof -
    from ne have vne: "v \<noteq> []" by simp
    have l: "\<not> isspace (hd v)" using vne unfolding v_def by (rule hd_dropWhile)
    have une: "u \<noteq> []" using u ne by (cases u) auto
    have "\<not> isspace (hd u)" using une unfolding u_def by (rule hd_dropWhile)
    moreover have "hd u = hd (rev v)" using u ne by (metis hd_append2)
    ultimately show ?thesis using l vne by (simp add: last_rev)
  qed
  have "t = takeWhile isspace t @ strip t @ rev (takeWhile isspace (rev u))"
    using t u st by simp
  thus ?thesis using p1 p2 ends st by metis
qed

text \<open>\<open>strip\<close> leaves nothing exactly of the strings that are whitespace throughout.\<close>

lemma strip_empty_iff: "strip s = [] \<longleftrightarrow> list_all isspace s"
proof
  assume "strip s = []"
  hence a: "\<forall>x\<in>set (dropWhile isspace s). isspace x"
    by (simp add: strip_def dropWhile_eq_Nil_conv)
  have "dropWhile isspace s = []"
  proof (rule ccontr)
    assume ne: "dropWhile isspace s \<noteq> []"
    hence "\<not> isspace (hd (dropWhile isspace s))" by (rule hd_dropWhile)
    moreover have "hd (dropWhile isspace s) \<in> set (dropWhile isspace s)" using ne by simp
    ultimately show False using a by blast
  qed
  thus "list_all isspace s" by (simp add: dropWhile_eq_Nil_conv list_all_iff)
next
  assume "list_all isspace s"
  hence "dropWhile isspace s = []" by (induction s) simp_all
  thus "strip s = []" by (simp only: strip_def rev.simps dropWhile.simps)
qed

section \<open>The reporter's verdicts\<close>

text \<open>
  Claim C3. For all pairs of measured times, \<open>display_results\<close> prints the SIMILAR
  line exactly when the absolute difference of \<open>json_time\<close> and \<open>toon_time\<close> is
  strictly below 0.5; otherwise it prints "TOON was FASTER" when the difference
  \<open>json_time - toon_time\<close> is positive and "JSON was FASTER" when it is negative. A
  difference of exactly 0.50 is not SIMILAR, one of 0.49 is. (Python floats are read as
  real numbers here.)
\<close>

theorem latency_verdict:
  "((\<exists>x. MsgSimilar x \<in> set (display_results r))
      \<longleftrightarrow> \<bar>json_time r - toon_time r\<bar> < 0.5)
   \<and> ((\<exists>x. MsgToonFaster x \<in> set (display_results r))
      \<longleftrightarrow> \<not> \<bar>json_time r - toon_time r\<bar> < 0.5 \<and> json_time r - toon_time r > 0)
   \<and> ((\<exists>x. MsgJsonFaster x \<in> set (display_results r))
      \<longleftrightarrow> \<not> \<bar>json_time r - toon_time r\<bar> < 0.5 \<and> json_time r - toon_time r < 0)
   \<and> MsgToonFaster 0.5 \<in> set (display_results (r\<lparr>json_time := 1.5, toon_time := 1\<rparr>))
   \<and> MsgJsonFaster 0.5 \<in> set (display_results (r\<lparr>json_time := 1, toon_time := 1.5\<rparr>))
   \<and> MsgSimilar 0.49 \<in> set (display_results (r\<lparr>json_time := 1.49, toon_time := 1\<rparr>))"
  by (auto simp: display_results_def Let_def)

text \<open>
  Claim C4. For all pairs of response strings, \<open>display_results\<close> prints IDENTICAL
  exactly when the two responses are equal after lowercasing both, that is when they
  have the same length and agree character by character up to case, and prints DIFFER
  otherwise. "Yes" and "yes" are IDENTICAL, and so are a capital and a small E with
  acute accent (code points 201 and 233); "Yes." and "Yes" DIFFER.
\<close>

theorem identical_verdict:
  "(MsgIdentical \<in> set (display_results r)
      \<longleftrightarrow> lower (json_response r) = lower (toon_response r))
   \<and> (MsgDiffer \<in> set (display_results r)
      \<longleftrightarrow> lower (json_response r) \<noteq> lower (toon_response r))
   \<and> (lower (json_response r) = lower (toon_response r)
      \<longleftrightarrow> list_all2 (\<lambda>c d. lower_char c = lower_char d) (json_response r) (toon_response r))
   \<and> MsgIdentical \<in> set (display_results (r\<lparr>json_response := ''Yes'', toon_response := ''yes''\<rparr>))
   \<and> MsgIdentical
       \<in> set (display_results (r\<lparr>json_response := [CHR 0xC9], toon_response := [CHR 0xE9]\<rparr>))
   \<and> MsgDiffer \<in> set (display_results (r\<lparr>json_response := ''Yes.'', toon_response := ''Yes''\<rparr>))"
proof -
  have a: "MsgIdentical \<in> set (display_results r)
      \<longleftrightarrow> lower (json_response r) = lower (toon_response r)"
    by (auto simp: display_results_def Let_def)
  have b: "MsgDiffer \<in> set (display_results r)
      \<longleftrightarrow> lower (json_response r) \<noteq> lower (toon_response r)"
    by (auto simp: display_results_def Let_def)
  have c: "MsgIdentical
      \<in> set (display_results (r\<lparr>json_response := ''Yes'', toon_response := ''yes''\<rparr>))"
    by (simp add: display_results_def Let_def str_simps)
  have d: "MsgDiffer
      \<in> set (display_results (r\<lparr>json_response := ''Yes.'', toon_response := ''Yes''\<rparr>))"
    by (simp add: display_results_def Let_def str_simps)
  have e: "MsgIdentical
      \<in> set (display_results (r\<lparr>json_response := [CHR 0xC9], toon_response := [CHR 0xE9]\<rparr>))"
    by (simp add: display_results_def Let_def str_simps)
  show ?thesis using a b c d e lower_eq_iff by blast
qed

section \<open>The constructor\<close>

text \<open>
  Claim C10. \<open>TOONParsingTest(json_file)\<close> raises \<open>FileNotFoundError\<close> exactly when
  the path does not exist, whatever its suffix (the existence check comes first);
  on an existing path it raises \<open>ValueError\<close> exactly when the suffix is not the
  string \<open>.json\<close>, compared as it is, so \<open>data.JSON\<close> and \<open>data.Json\<close> are
  rejected; it returns the object in the remaining case.
\<close>

theorem init_checks:
  "(fst (init w f s) = Inl (Exception (FileNotFoundError (''JSON file not found: '' @ f)))
      \<longleftrightarrow> \<not> w_exists w (Path f))
   \<and> (fst (init w f s) = Inl (Exception (ValueError ''File must have .json extension''))
      \<longleftrightarrow> w_exists w (Path f) \<and> suffix (Path f) \<noteq> ''.json'')
   \<and> ((\<exists>self. fst (init w f s) = Inr self)
      \<longleftrightarrow> w_exists w (Path f) \<and> suffix (Path f) = ''.json'')
   \<and> suffix (Path ''dir/data.JSON'') = ''.JSON''
   \<and> suffix (Path ''data.Json'') = ''.Json''
   \<and> suffix (Path ''dir/data.json'') = ''.json''
   \<and> fst (init (quiet_world\<lparr>w_exists := \<lambda>p. False\<rparr>) ''dir/data.JSON'' s)
       = Inl (Exception (FileNotFoundError ''JSON file not found: dir/data.JSON''))
   \<and> fst (init quiet_world ''dir/data.JSON'' s)
       = Inl (Exception (ValueError ''File must have .json extension''))"
proof -
  have sfx: "suffix (Path ''dir/data.JSON'') = ''.JSON''"
    "suffix (Path ''data.Json'') = ''.Json''"
    "suffix (Path ''dir/data.json'') = ''.json''"
    by (simp_all add: suffix_def Path_def name_def rfind_def)
  have gen: "(fst (init w f s)
       = Inl (Exception (FileNotFoundError (''JSON file not found: '' @ f)))
      \<longleftrightarrow> \<not> w_exists w (Path f))
   \<and> (fst (init w f s) = Inl (Exception (ValueError ''File must have .json extension''))
      \<longleftrightarrow> w_exists w (Path f) \<and> suffix (Path f) \<noteq> ''.json'')
   \<and> ((\<exists>self. fst (init w f s) = Inr self)
      \<longleftrightarrow> w_exists w (Path f) \<and> suffix (Path f) = ''.json'')"
    by (auto simp: init_def Let_def)
  have ex: "fst (init (quiet_world\<lparr>w_exists := \<lambda>p. False\<rparr>) ''dir/data.JSON'' s)
       = Inl (Exception (FileNotFoundError ''JSON file not found: dir/data.JSON''))"
    "fst (init quiet_world ''dir/data.JSON'' s)
       = Inl (Exception (ValueError ''File must have .json extension''))"
    by (simp_all add: init_def Let_def sfx quiet_world_def)
  show ?thesis using gen sfx ex by simp
qed

section \<open>The query dispatcher\<close>

lemmas world_simps =
  quiet_world_def asking_world_def flaky_world_def interrupted_world_def
  prompt_interrupt_world_def late_interrupt_world_def answer_def failure_def sample_test_def start_def

lemmas path_simps =
  Path_def name_def suffix_def stem_def parent_def joinpath_def str_path_def rfind_def

text \<open>\<open>query_llm\<close> by the answer of the API: the value, and the state it leaves.\<close>

lemma query_llm_cases:
  "query_llm w dc df q s =
     (let r = w_generate_content w (now s) (w_model w) (build_prompt dc df q);
          s1 = s\<lparr>now := now s + api_duration r,
                  trace := trace s @ [GenerateContent (now s) (w_model w) (build_prompt dc df q)]\<rparr>
      in (case api_result r of
            Inl (Exception e) \<Rightarrow> Inr (''Error: '' @ str_exception e, 0)
          | Inl e \<Rightarrow> Inl e
          | Inr (Inl (Exception e)) \<Rightarrow> Inr (''Error: '' @ str_exception e, 0)
          | Inr (Inl e) \<Rightarrow> Inl e
          | Inr (Inr None) \<Rightarrow>
              Inr (''Error: '' @ str_exception (no_attribute ''NoneType'' ''strip''), 0)
          | Inr (Inr (Some t)) \<Rightarrow> Inr (strip t, api_duration r), s1))"
  by (simp add: query_llm_def query_llm_try_def Let_def emit_def
      split: sum.splits base_exception.splits option.splits)

lemma query_llm_state:
  "snd (query_llm w dc df q s) =
     s\<lparr>now := now s + api_duration (w_generate_content w (now s) (w_model w) (build_prompt dc df q)),
       trace := trace s @ [GenerateContent (now s) (w_model w) (build_prompt dc df q)]\<rparr>"
  by (simp add: query_llm_cases Let_def)

lemma query_llm_frame:
  "now s' = now s \<Longrightarrow> fst (query_llm w dc df q s') = fst (query_llm w dc df q s)"
  by (simp add: query_llm_cases Let_def)




text \<open>
  Claim C9. When the API call succeeds but \<open>response.text\<close> is \<open>None\<close>, or reading it
  raises an exception of class \<open>Exception\<close> (a missing attribute), \<open>query_llm\<close> does not
  raise: the \<open>.strip()\<close> is inside the \<open>try\<close>, and the result is an \<open>Error: ...\<close> text
  with time 0. When the text is a string, the response stored is that text with the
  whitespace at both ends removed (a no-break space and a next-line character too),
  and the time is the duration of the call.
\<close>

theorem query_llm_text:
  "(api_result (w_generate_content w (now s) (w_model w) (build_prompt dc df q)) = Inr (Inr None)
      \<longrightarrow> fst (query_llm w dc df q s)
            = Inr (''Error: '' @ quoted ''NoneType'' @ '' object has no attribute ''
                     @ quoted ''strip'', 0))
   \<and> (api_result (w_generate_content w (now s) (w_model w) (build_prompt dc df q))
        = Inr (Inl (Exception e))
      \<longrightarrow> fst (query_llm w dc df q s) = Inr (''Error: '' @ str_exception e, 0))
   \<and> (api_result (w_generate_content w (now s) (w_model w) (build_prompt dc df q))
        = Inr (Inr (Some t))
      \<longrightarrow> fst (query_llm w dc df q s)
            = Inr (strip t,
                   api_duration (w_generate_content w (now s) (w_model w) (build_prompt dc df q)))
          \<and> (\<exists>pre suf. t = pre @ strip t @ suf \<and> list_all isspace pre \<and> list_all isspace suf
                \<and> (strip t = [] \<or> (\<not> isspace (hd (strip t)) \<and> \<not> isspace (last (strip t))))))"
  using strip_spec [of t] by (simp add: query_llm_cases Let_def no_attribute_def)

theorem query_llm_text_witness:
  "fst (query_llm (quiet_world\<lparr>w_generate_content := \<lambda>t m p. answer None\<rparr>)
          (Some ''{}'') ''JSON'' ''q'' (start 0))
     = Inr (''Error: '' @ quoted ''NoneType'' @ '' object has no attribute '' @ quoted ''strip'', 0)
   \<and> fst (query_llm
            (quiet_world\<lparr>w_generate_content :=
               \<lambda>t m p. \<lparr>api_duration = 1,
                         api_result = Inr (Inl (Exception (AttributeError ''no text'')))\<rparr>\<rparr>)
            (Some ''{}'') ''JSON'' ''q'' (start 0))
     = Inr (''Error: no text'', 0)
   \<and> api_result (w_generate_content quiet_world (now (start 0)) (w_model quiet_world)
        (build_prompt (Some ''{}'') ''JSON'' ''q'')) = Inr (Inr (Some '' 42 ''))
   \<and> fst (query_llm quiet_world (Some ''{}'') ''JSON'' ''q'' (start 0)) = Inr (''42'', 1)
   \<and> fst (query_llm
            (quiet_world\<lparr>w_generate_content :=
               \<lambda>t m p. answer (Some ([CHR 0xA0] @ '' 42'' @ [CHR 0x85]))\<rparr>)
            (Some ''{}'') ''JSON'' ''q'' (start 0)) = Inr (''42'', 1)"
  using
    query_llm_text [of "quiet_world\<lparr>w_generate_content :=
               \<lambda>t m p. answer (Some ([CHR 0xA0] @ '' 42'' @ [CHR 0x85]))\<rparr>"
                       "start 0" "Some ''{}''" "''JSON''" "''q''" _
                       "[CHR 0xA0] @ '' 42'' @ [CHR 0x85]"]
    query_llm_text [of "quiet_world\<lparr>w_generate_content := \<lambda>t m p. answer None\<rparr>"
                       "start 0" "Some ''{}''" "''JSON''" "''q''"]
    query_llm_text [of "quiet_world\<lparr>w_generate_content :=
               \<lambda>t m p. \<lparr>api_duration = 1,
                         api_result = Inr (Inl (Exception (AttributeError ''no text'')))\<rparr>\<rparr>"
                       "start 0" "Some ''{}''" "''JSON''" "''q''" "AttributeError ''no text''"]
    query_llm_text [of quiet_world "start 0" "Some ''{}''" "''JSON''" "''q''" _ "'' 42 ''"]
  by (simp add: world_simps str_simps)

section \<open>The comparison run\<close>

lemma run_test_unfold:
  "run_test w self q s =
    (let s1 = prints [MsgRule, MsgTestingQuestion q, MsgRule, MsgQueryingJson] s;
         a = query_llm w (json_content self) ''JSON'' q s1;
         s2 = snd a
     in case fst a of Inl e \<Rightarrow> (Inl e, s2)
        | Inr (jr, jt) \<Rightarrow>
           (let s3 = emit (Sleep (now s2) 2) (prints [MsgResponseTime jt] s2)
            in case w_sleep w (now s2) 2 of Inl e \<Rightarrow> (Inl e, s3)
               | Inr slept \<Rightarrow>
                  (let s4 = prints [MsgQueryingToon] (s3\<lparr>now := now s3 + slept\<rparr>);
                       b = query_llm w (toon_content self) ''TOON'' q s4;
                       s5 = snd b
                   in case fst b of Inl e \<Rightarrow> (Inl e, s5)
                      | Inr (tr, tt) \<Rightarrow>
                         (Inr \<lparr>question = q, json_response = jr, json_time = jt,
                               toon_response = tr, toon_time = tt\<rparr>,
                          prints [MsgResponseTime tt] s5))))"
  by (simp add: run_test_def Let_def split: prod.splits sum.splits)

text \<open>The value of \<open>run_test\<close> from the two dispatches and the sleep between them.\<close>

lemma run_test_result:
  "fst (run_test w self q s) =
    (let r1 = w_generate_content w (now s) (w_model w)
                (build_prompt (json_content self) ''JSON'' q);
         t1 = now s + api_duration r1
     in case fst (query_llm w (json_content self) ''JSON'' q s) of
          Inl e \<Rightarrow> Inl e
        | Inr (jr, jt) \<Rightarrow>
            (case w_sleep w t1 2 of
               Inl e \<Rightarrow> Inl e
             | Inr d \<Rightarrow>
                 (case fst (query_llm w (toon_content self) ''TOON'' q (s\<lparr>now := t1 + d\<rparr>)) of
                    Inl e \<Rightarrow> Inl e
                  | Inr (tr, tt) \<Rightarrow>
                      Inr \<lparr>question = q, json_response = jr, json_time = jt,
                            toon_response = tr, toon_time = tt\<rparr>)))"
proof -
  let ?s1 = "prints [MsgRule, MsgTestingQuestion q, MsgRule, MsgQueryingJson] s"
  have f1: "fst (query_llm w (json_content self) ''JSON'' q ?s1)
          = fst (query_llm w (json_content self) ''JSON'' q s)"
    by (rule query_llm_frame) simp
  have f2: "fst (query_llm w (toon_content self) ''TOON'' q
              (prints [MsgQueryingToon]
                 ((emit (Sleep (now sa) 2) (prints [MsgResponseTime jt] sa))
                    \<lparr>now := now (emit (Sleep (now sa) 2) (prints [MsgResponseTime jt] sa)) + d\<rparr>)))
          = fst (query_llm w (toon_content self) ''TOON'' q (s\<lparr>now := now sa + d\<rparr>))"
    for jt d sa
    by (rule query_llm_frame) simp
  have n2: "now (snd (query_llm w (json_content self) ''JSON'' q ?s1))
       = now s + api_duration (w_generate_content w (now s) (w_model w)
                                 (build_prompt (json_content self) ''JSON'' q))"
    by (simp add: query_llm_state)
  show ?thesis
    unfolding run_test_unfold Let_def f1 f2 n2
    by (simp split: sum.splits prod.splits)
qed




text \<open>
  Claim C2. In every run of \<open>run_test\<close> the contacts with the outside are, in this
  order, the JSON dispatch, a \<open>time.sleep(2)\<close> that starts when the JSON dispatch has
  ended, and the TOON dispatch; a run that is cut short stops after the first or the
  second, and a run that returns a record has made all three. With a clock that does not
  run backwards during the call, and a sleep that lasts at least the time asked for, the
  TOON dispatch starts at least 2 after the end of the JSON dispatch, hence at least 2
  after its start.
\<close>

theorem run_test_pause:
  assumes r1: "w_generate_content w (now s) (w_model w)
                 (build_prompt (json_content self) ''JSON'' q) = r1"
      and dur: "0 \<le> api_duration r1"
      and slp: "\<forall>d. w_sleep w (now s + api_duration r1) 2 = Inr d \<longrightarrow> 2 \<le> d"
  shows "\<exists>evs t2.
      now s + api_duration r1 + 2 \<le> t2 \<and> 2 \<le> t2 - now s
      \<and> effects (trace (snd (run_test w self q s))) = effects (trace s) @ evs
      \<and> (evs = [GenerateContent (now s) (w_model w)
                   (build_prompt (json_content self) ''JSON'' q)]
         \<or> evs = [GenerateContent (now s) (w_model w)
                     (build_prompt (json_content self) ''JSON'' q),
                  Sleep (now s + api_duration r1) 2]
         \<or> evs = [GenerateContent (now s) (w_model w)
                     (build_prompt (json_content self) ''JSON'' q),
                  Sleep (now s + api_duration r1) 2,
                  GenerateContent t2 (w_model w)
                     (build_prompt (toon_content self) ''TOON'' q)])
      \<and> ((\<exists>rec. fst (run_test w self q s) = Inr rec)
           \<longrightarrow> evs = [GenerateContent (now s) (w_model w)
                         (build_prompt (json_content self) ''JSON'' q),
                       Sleep (now s + api_duration r1) 2,
                       GenerateContent t2 (w_model w)
                         (build_prompt (toon_content self) ''TOON'' q)])"
proof -
  let ?e1 = "now s + api_duration r1"
  let ?G1 = "GenerateContent (now s) (w_model w) (build_prompt (json_content self) ''JSON'' q)"
  let ?s1 = "prints [MsgRule, MsgTestingQuestion q, MsgRule, MsgQueryingJson] s"
  show ?thesis
  proof (cases "fst (query_llm w (json_content self) ''JSON'' q ?s1)")
    case (Inl e)
    have "effects (trace (snd (run_test w self q s))) = effects (trace s) @ [?G1]"
      "\<not> (\<exists>rec. fst (run_test w self q s) = Inr rec)"
      by (simp_all add: run_test_unfold Let_def Inl query_llm_state r1)
    thus ?thesis using dur by (intro exI [of _ "[?G1]"] exI [of _ "?e1 + 2"]) simp
  next
    case (Inr a)
    obtain jr jt where a: "a = (jr, jt)" by (cases a)
    show ?thesis
    proof (cases "w_sleep w ?e1 2")
      case (Inl e)
      have "effects (trace (snd (run_test w self q s))) = effects (trace s) @ [?G1, Sleep ?e1 2]"
        "\<not> (\<exists>rec. fst (run_test w self q s) = Inr rec)"
        using Inl by (simp_all add: run_test_unfold Let_def Inr a query_llm_state r1)
      thus ?thesis using dur
        by (intro exI [of _ "[?G1, Sleep ?e1 2]"] exI [of _ "?e1 + 2"]) simp
    next
      case (Inr d)
      let ?t2 = "?e1 + d"
      let ?G2 = "GenerateContent ?t2 (w_model w) (build_prompt (toon_content self) ''TOON'' q)"
      have d2: "2 \<le> d" using slp Inr by blast
      have "effects (trace (snd (run_test w self q s)))
              = effects (trace s) @ [?G1, Sleep ?e1 2, ?G2]"
        using Inr \<open>fst _ = Inr a\<close>
        by (simp add: run_test_unfold Let_def a query_llm_state r1 split: sum.splits prod.splits)
      thus ?thesis using dur d2
        by (intro exI [of _ "[?G1, Sleep ?e1 2, ?G2]"] exI [of _ ?t2]) simp
    qed
  qed
qed

theorem run_test_pause_witness:
  "0 \<le> api_duration (w_generate_content quiet_world (now (start 0)) (w_model quiet_world)
          (build_prompt (json_content sample_test) ''JSON'' ''q''))
   \<and> w_sleep quiet_world (now (start 0) + 1) 2 = Inr 2
   \<and> (\<exists>rec. fst (run_test quiet_world sample_test ''q'' (start 0)) = Inr rec)
   \<and> effects (trace (snd (run_test quiet_world sample_test ''q'' (start 0))))
       = [GenerateContent 0 (Some ''gemini-pro'') (build_prompt (Some ''{}'') ''JSON'' ''q''),
          Sleep 1 2,
          GenerateContent 3 (Some ''gemini-pro'') (build_prompt (Some ''x'') ''TOON'' ''q'')]"
proof -
  have r1: "w_generate_content quiet_world (now (start 0)) (w_model quiet_world)
                 (build_prompt (json_content sample_test) ''JSON'' ''q'') = answer (Some '' 42 '')"
    by (simp add: world_simps)
  have dur: "0 \<le> api_duration (answer (Some '' 42 ''))" by (simp add: answer_def)
  have slp: "\<forall>d. w_sleep quiet_world (now (start 0) + api_duration (answer (Some '' 42 ''))) 2 = Inr d
               \<longrightarrow> 2 \<le> d"
    by (simp add: world_simps)
  have ret: "\<exists>rec. fst (run_test quiet_world sample_test ''q'' (start 0)) = Inr rec"
    by (simp add: run_test_result query_llm_cases Let_def world_simps)
  from run_test_pause [OF r1 dur slp] ret
  obtain t2 where
    "effects (trace (snd (run_test quiet_world sample_test ''q'' (start 0))))
       = effects (trace (start 0))
         @ [GenerateContent (now (start 0)) (w_model quiet_world)
              (build_prompt (json_content sample_test) ''JSON'' ''q''),
            Sleep (now (start 0) + api_duration (answer (Some '' 42 ''))) 2,
            GenerateContent t2 (w_model quiet_world)
              (build_prompt (toon_content sample_test) ''TOON'' ''q'')]"
    by blast
  moreover have "effects (trace (snd (run_test quiet_world sample_test ''q'' (start 0))))
       = [GenerateContent 0 (Some ''gemini-pro'') (build_prompt (Some ''{}'') ''JSON'' ''q''),
          Sleep 1 2,
          GenerateContent 3 (Some ''gemini-pro'') (build_prompt (Some ''x'') ''TOON'' ''q'')]"
    by (simp add: run_test_unfold query_llm_cases Let_def world_simps effects_def)
  ultimately show ?thesis using ret by (simp add: world_simps)
qed

section \<open>The model resolver\<close>

text \<open>On models that cannot make it raise, the loop collects the names of the eligible
  ones in order.\<close>

lemma gemini_loop_well_formed:
  "list_all well_formed ms
    \<Longrightarrow> gemini_loop ms acc = Inr (acc @ map the_name (filter eligible ms))"
  by (induction ms arbitrary: acc)
     (auto simp: well_formed_def eligible_def the_name_def split: attr.splits option.splits)

lemma find_filter_conv: "find P xs = (case filter P xs of [] \<Rightarrow> None | x # _ \<Rightarrow> Some x)"
  by (induction xs) auto

lemma AVAILABLE_MODEL_total: "AVAILABLE_MODEL listing \<noteq> Inl (Exception e)"
  by (auto simp: AVAILABLE_MODEL_def split: sum.splits base_exception.splits)

text \<open>
  Claim C5, as the code has it. When the listing call raises an exception of class
  \<open>Exception\<close>, or lists no model at all, \<open>AVAILABLE_MODEL\<close> is the hard-coded
  \<open>gemini-pro\<close>, and the discovery never ends in an exception of class \<open>Exception\<close>.
  When it lists models (none with a \<open>None\<close> name or \<open>None\<close> methods): if some model
  has \<open>gemini\<close> in its lowercased name and its generation methods are absent, empty or
  contain \<open>generateContent\<close>, the name of the first such model is selected; if there is
  none, the name of the first listed model is used, whatever it is, and \<open>gemini-pro\<close>
  only when that model has no name attribute.
\<close>

theorem model_resolution:
  "AVAILABLE_MODEL (Inl (Exception e)) = Inr (Some ''gemini-pro'')
   \<and> AVAILABLE_MODEL (Inr []) = Inr (Some ''gemini-pro'')
   \<and> AVAILABLE_MODEL listing \<noteq> Inl (Exception e)
   \<and> (list_all well_formed models \<longrightarrow>
        (case find eligible models of
           Some m \<Rightarrow>
             AVAILABLE_MODEL (Inr models) = Inr (Some (the_name m))
             \<and> model_name m = Attr (Some (the_name m))
         | None \<Rightarrow>
             (case models of
                [] \<Rightarrow> AVAILABLE_MODEL (Inr models) = Inr (Some ''gemini-pro'')
              | m # ms \<Rightarrow>
                  AVAILABLE_MODEL (Inr models)
                    = (case model_name m of
                         NoAttr \<Rightarrow> Inr (Some ''gemini-pro'')
                       | Attr n \<Rightarrow> Inr n))))"
proof -
  have a: "AVAILABLE_MODEL (Inl (Exception e)) = Inr (Some ''gemini-pro'')"
    by (simp add: AVAILABLE_MODEL_def resolve_try_def)
  have b: "AVAILABLE_MODEL (Inr []) = Inr (Some ''gemini-pro'')"
    by (simp add: AVAILABLE_MODEL_def resolve_try_def)
  have c: "AVAILABLE_MODEL (Inr models) = Inr (Some (the_name m))
           \<and> model_name m = Attr (Some (the_name m))"
    if wf: "list_all well_formed models" and f: "find eligible models = Some m" for m
  proof -
    from f obtain rest where fl: "filter eligible models = m # rest"
      by (auto simp: find_filter_conv split: list.splits)
    have "m \<in> set (filter eligible models)" using fl by simp
    hence el: "eligible m" by simp
    hence "model_name m = Attr (Some (the_name m))"
      by (auto simp: eligible_def the_name_def split: attr.splits option.splits)
    moreover have "AVAILABLE_MODEL (Inr models) = Inr (Some (the_name m))"
      by (simp add: AVAILABLE_MODEL_def resolve_try_def gemini_loop_well_formed [OF wf] fl)
    ultimately show ?thesis by simp
  qed
  have d: "AVAILABLE_MODEL (Inr (m # ms))
             = (case model_name m of NoAttr \<Rightarrow> Inr (Some ''gemini-pro'') | Attr n \<Rightarrow> Inr n)"
    if wf: "list_all well_formed (m # ms)" and f: "find eligible (m # ms) = None" for m ms
  proof -
    from f have fl: "filter eligible (m # ms) = []"
      by (cases "filter eligible (m # ms)") (simp_all add: find_filter_conv)
    show ?thesis
      by (simp add: AVAILABLE_MODEL_def resolve_try_def gemini_loop_well_formed [OF wf] fl
          del: gemini_loop.simps filter.simps split: attr.splits)
  qed
  show ?thesis
    using a b c d AVAILABLE_MODEL_total by (auto split: option.splits list.splits)
qed

theorem model_resolution_witness:
  "list_all well_formed [text_bison, gemini_flash]
   \<and> find eligible [text_bison, gemini_flash] = Some gemini_flash
   \<and> AVAILABLE_MODEL (Inr [text_bison, gemini_flash]) = Inr (Some ''models/Gemini-flash'')
   \<and> list_all well_formed [text_bison]
   \<and> find eligible [text_bison] = None
   \<and> AVAILABLE_MODEL (Inr [text_bison]) = Inr (Some ''models/text-bison'')"
  using model_resolution [where models = "[text_bison, gemini_flash]"]
        model_resolution [where models = "[text_bison]"]
  by (simp add: well_formed_def text_bison_def gemini_flash_def eligible_def str_simps the_name_def)

text \<open>
  Claim C5 as stated fails: a listing whose only model is not eligible does not give a
  hard-coded identifier, it gives that model's own name.
\<close>

theorem fallback_not_hard_coded:
  "find eligible [text_bison] = None
   \<and> AVAILABLE_MODEL (Inr [text_bison]) = Inr (Some ''models/text-bison'')
   \<and> AVAILABLE_MODEL (Inr [text_bison]) \<noteq> Inr (Some ''gemini-pro'')"
  by (simp add: AVAILABLE_MODEL_def resolve_try_def text_bison_def eligible_def str_simps)

section \<open>Traces of the methods and of main\<close>

lemma main_try_unfold:
  "main_try w f q s =
    (let a = init w f s in
     case fst a of Inl e \<Rightarrow> (Inl e, snd a)
     | Inr test \<Rightarrow>
        (let b = convert_to_toon w test (snd a) in
         case fst b of Inl e \<Rightarrow> (Inl e, snd b)
         | Inr (p, test2) \<Rightarrow>
            (let c = load_contents w test2 (snd b) in
             case fst c of Inl e \<Rightarrow> (Inl e, snd c)
             | Inr test3 \<Rightarrow>
                (let d = run_test w test3 q (snd c) in
                 case fst d of Inl e \<Rightarrow> (Inl e, snd d)
                 | Inr r \<Rightarrow> save_results w test3 r ''test_results.json''
                              (prints (display_results r) (snd d))))))"
  by (simp add: main_try_def Let_def split: prod.splits sum.splits)

lemma init_trace: "trace (snd (init w f s)) = trace s @ [Exists (Path f)]"
  by (simp add: init_def Let_def)

lemma init_path: "fst (init w f s) = Inr self \<Longrightarrow> json_file_path self = Path f"
  by (auto simp: init_def Let_def split: if_splits)

lemma convert_trace:
  "\<exists>ms. trace (snd (convert_to_toon w self s)) =
      trace s @ [Print (MsgConverting (name (json_file_path self))),
                 SubprocessRun (converter_args (json_file_path self)
                    (joinpath (parent (json_file_path self))
                       (stem (json_file_path self) @ ''_output.toon'')))] @ map Print ms"
proof (cases "w_subprocess_run w (converter_args (json_file_path self)
                    (joinpath (parent (json_file_path self))
                       (stem (json_file_path self) @ ''_output.toon'')))")
  case (Inl e)
  show ?thesis
  proof (cases e)
    case KeyboardInterrupt
    thus ?thesis using Inl by (intro exI [of _ "[]"]) (simp add: convert_to_toon_def Let_def)
  next
    case (SystemExit n)
    thus ?thesis using Inl by (intro exI [of _ "[]"]) (simp add: convert_to_toon_def Let_def)
  next
    case (Exception x)
    thus ?thesis using Inl
      by (cases x) (auto simp: convert_to_toon_def Let_def intro: exI [of _ "[]"]
                       exI [of _ "[MsgNpxNotFound]"] exI [of _ "[MsgConvertError, MsgStderr y]" for y])
  qed
next
  case (Inr u)
  thus ?thesis
    by (intro exI [of _ "[MsgConverted (name (joinpath (parent (json_file_path self))
                       (stem (json_file_path self) @ ''_output.toon'')))]"])
       (simp add: convert_to_toon_def Let_def)
qed

lemma convert_result:
  "fst (convert_to_toon w self s) = Inr (p, self') \<Longrightarrow>
     p = joinpath (parent (json_file_path self)) (stem (json_file_path self) @ ''_output.toon'')
     \<and> self' = self\<lparr>toon_file_path := Some p\<rparr>"
  by (auto simp: convert_to_toon_def Let_def split: sum.splits base_exception.splits exception.splits)

lemma load_trace:
  "\<exists>evs. trace (snd (load_contents w self s)) = trace s @ evs
     \<and> filter is_WriteFile evs = [] \<and> filter is_SubprocessRun evs = []
     \<and> filter is_GenerateContent evs = []"
  by (auto simp: load_contents_def Let_def split: sum.splits option.splits)

lemma load_result:
  "fst (load_contents w self s) = Inr self' \<Longrightarrow> json_file_path self' = json_file_path self"
  by (auto simp: load_contents_def Let_def split: sum.splits option.splits)

lemma run_trace:
  "\<exists>evs. trace (snd (run_test w self q s)) = trace s @ evs
     \<and> filter is_WriteFile evs = [] \<and> filter is_SubprocessRun evs = []
     \<and> ((\<exists>r. fst (run_test w self q s) = Inr r) \<longrightarrow> length (filter is_GenerateContent evs) = 2)"
  by (auto simp: run_test_unfold Let_def query_llm_state split: sum.splits prod.splits)

lemma save_trace:
  "trace (snd (save_results w self r out s)) =
     trace s @ WriteFile (joinpath (parent (json_file_path self)) out) r
       # (case w_write w (joinpath (parent (json_file_path self)) out) r of
            Inl e \<Rightarrow> [] | Inr u \<Rightarrow> [Print (MsgSaved (joinpath (parent (json_file_path self)) out))])"
  by (simp add: save_results_def Let_def split: sum.splits)

lemma save_result:
  "fst (save_results w self r out s) =
     (case w_write w (joinpath (parent (json_file_path self)) out) r of
        Inl e \<Rightarrow> Inl e | Inr u \<Rightarrow> Inr ())"
  by (simp add: save_results_def Let_def split: sum.splits)

lemma main_try_trace:
  "\<exists>evs. trace (snd (main_try w f q s)) = trace s @ evs
     \<and> (filter is_SubprocessRun evs = []
        \<or> filter is_SubprocessRun evs =
            [SubprocessRun (converter_args (Path f)
               (joinpath (parent (Path f)) (stem (Path f) @ ''_output.toon'')))])
     \<and> (filter is_WriteFile evs = []
        \<or> (\<exists>pre r post.
              evs = pre @ map Print (display_results r)
                      @ WriteFile (joinpath (parent (Path f)) ''test_results.json'') r # post
              \<and> filter is_WriteFile pre = [] \<and> filter is_WriteFile post = []
              \<and> length (filter is_GenerateContent pre) = 2
              \<and> (fst (main_try w f q s) = Inl KeyboardInterrupt \<longrightarrow>
                   w_write w (joinpath (parent (Path f)) ''test_results.json'') r
                     = Inl KeyboardInterrupt)))"
proof -
  let ?a = "init w f s"
  have ta: "trace (snd ?a) = trace s @ [Exists (Path f)]" by (rule init_trace)
  show ?thesis
  proof (cases "fst ?a")
    case (Inl e)
    hence "trace (snd (main_try w f q s)) = trace s @ [Exists (Path f)]"
      by (simp add: main_try_unfold Let_def ta)
    thus ?thesis by (intro exI [of _ "[Exists (Path f)]"]) simp
  next
    case a: (Inr test)
    hence jp: "json_file_path test = Path f" by (rule init_path)
    let ?b = "convert_to_toon w test (snd ?a)"
    let ?sub = "SubprocessRun (converter_args (Path f)
               (joinpath (parent (Path f)) (stem (Path f) @ ''_output.toon'')))"
    obtain ms where tb: "trace (snd ?b) =
        trace s @ [Exists (Path f), Print (MsgConverting (name (Path f))), ?sub] @ map Print ms"
      using convert_trace [of w test "snd ?a"] by (auto simp: ta jp)
    let ?e2 = "[Exists (Path f), Print (MsgConverting (name (Path f))), ?sub] @ map Print ms"
    show ?thesis
    proof (cases "fst ?b")
      case (Inl e)
      hence "trace (snd (main_try w f q s)) = trace s @ ?e2"
        by (simp add: main_try_unfold Let_def a tb)
      thus ?thesis by (intro exI [of _ ?e2]) simp
    next
      case (Inr pt)
      obtain p test2 where pt: "pt = (p, test2)" by (cases pt)
      have b: "fst ?b = Inr (p, test2)" using Inr pt by simp
      hence jp2: "json_file_path test2 = Path f" using convert_result [OF b] jp by simp
      let ?c = "load_contents w test2 (snd ?b)"
      obtain e3 where tc: "trace (snd ?c) = trace s @ ?e2 @ e3"
         and e3: "filter is_WriteFile e3 = []" "filter is_SubprocessRun e3 = []"
                 "filter is_GenerateContent e3 = []"
        using load_trace [of w test2 "snd ?b"] by (auto simp: tb)
      show ?thesis
      proof (cases "fst ?c")
        case (Inl e)
        hence "trace (snd (main_try w f q s)) = trace s @ ?e2 @ e3"
          by (simp add: main_try_unfold Let_def a b tc)
        thus ?thesis using e3 by (intro exI [of _ "?e2 @ e3"]) simp
      next
        case c: (Inr test3)
        hence jp3: "json_file_path test3 = Path f" using load_result [OF c] jp2 by simp
        let ?d = "run_test w test3 q (snd ?c)"
        obtain e4 where td: "trace (snd ?d) = trace s @ ?e2 @ e3 @ e4"
           and e4: "filter is_WriteFile e4 = []" "filter is_SubprocessRun e4 = []"
                   "(\<exists>r. fst ?d = Inr r) \<longrightarrow> length (filter is_GenerateContent e4) = 2"
          using run_trace [of w test3 q "snd ?c"] by (auto simp: tc)
        show ?thesis
        proof (cases "fst ?d")
          case (Inl e)
          hence "trace (snd (main_try w f q s)) = trace s @ ?e2 @ e3 @ e4"
            by (simp add: main_try_unfold Let_def a b c td)
          thus ?thesis using e3 e4 by (intro exI [of _ "?e2 @ e3 @ e4"]) simp
        next
          case d: (Inr r)
          let ?out = "joinpath (parent (Path f)) ''test_results.json''"
          let ?post = "case w_write w ?out r of Inl e \<Rightarrow> []
                       | Inr u \<Rightarrow> [Print (MsgSaved ?out)]"
          have g: "length (filter is_GenerateContent e4) = 2" using e4 d by blast
          have res: "main_try w f q s = save_results w test3 r ''test_results.json''
                              (prints (display_results r) (snd ?d))"
            by (simp add: main_try_unfold Let_def a b c d)
          have tr: "trace (snd (main_try w f q s)) =
                 trace s @ (?e2 @ e3 @ e4) @ map Print (display_results r) @ WriteFile ?out r # ?post"
            by (simp add: res save_trace jp3 td split: sum.splits)
          have ki: "fst (main_try w f q s) = Inl KeyboardInterrupt \<longrightarrow>
                   w_write w ?out r = Inl KeyboardInterrupt"
            by (simp add: res save_result jp3 split: sum.splits)
          have post: "filter is_WriteFile ?post = []" by (simp split: sum.splits)
          have pre: "filter is_WriteFile (?e2 @ e3 @ e4) = []"
             "length (filter is_GenerateContent (?e2 @ e3 @ e4)) = 2"
             "filter is_SubprocessRun (?e2 @ e3 @ e4) = [?sub]"
            using e3 e4 g by simp_all
          have sub: "filter is_SubprocessRun
              ((?e2 @ e3 @ e4) @ map Print (display_results r) @ WriteFile ?out r # ?post) = [?sub]"
            using pre(3) by (simp split: sum.splits)
          show ?thesis
            apply (rule exI [of _ "(?e2 @ e3 @ e4) @ map Print (display_results r) @ WriteFile ?out r # ?post"])
            apply (intro conjI)
              apply (rule tr)
             apply (rule disjI2, rule sub)
            apply (rule disjI2)
            apply (rule exI [of _ "?e2 @ e3 @ e4"], rule exI [of _ r], rule exI [of _ ?post])
            using pre post ki apply blast
            done
        qed
      qed
    qed
  qed
qed


lemma main_unfold:
  "main w s =
    (let s1 = prints [MsgBanner] s
     in if length (w_argv w) < 2 then (Inl (SystemExit 1), prints [MsgUsage] s1)
        else
          (let g = get_question w s1
           in case fst g of
                Inl e \<Rightarrow> (Inl e, snd g)
              | Inr q \<Rightarrow>
                  (let m = main_try w (w_argv w ! 1) q (snd g)
                   in case fst m of
                        Inl KeyboardInterrupt \<Rightarrow>
                          (Inl (SystemExit 0), prints [MsgInterrupted] (snd m))
                      | Inl (Exception e) \<Rightarrow>
                          (Inl (SystemExit 1), prints [MsgError (str_exception e)] (snd m))
                      | _ \<Rightarrow> m)))"
  by (simp add: main_def Let_def split: prod.splits sum.splits base_exception.splits)

lemma get_question_trace:
  "\<exists>evs. trace (snd (get_question w s)) = trace s @ evs
     \<and> filter is_WriteFile evs = [] \<and> filter is_SubprocessRun evs = []
     \<and> filter is_GenerateContent evs = []"
  by (auto simp: get_question_def Let_def split: sum.splits)

lemma main_trace:
  "\<exists>evs. trace (snd (main w s)) = trace s @ evs
     \<and> (filter is_SubprocessRun evs = []
        \<or> filter is_SubprocessRun evs =
            [SubprocessRun (converter_args (Path (w_argv w ! 1))
               (joinpath (parent (Path (w_argv w ! 1)))
                  (stem (Path (w_argv w ! 1)) @ ''_output.toon'')))])
     \<and> (filter is_WriteFile evs = []
        \<or> (\<exists>pre r post.
              evs = pre @ map Print (display_results r)
                      @ WriteFile (joinpath (parent (Path (w_argv w ! 1))) ''test_results.json'') r
                      # post
              \<and> filter is_WriteFile pre = [] \<and> filter is_WriteFile post = []
              \<and> length (filter is_GenerateContent pre) = 2))"
proof (cases "length (w_argv w) < 2")
  case True
  hence "trace (snd (main w s)) = trace s @ [Print MsgBanner, Print MsgUsage]"
    by (simp add: main_unfold Let_def)
  thus ?thesis by (intro exI [of _ "[Print MsgBanner, Print MsgUsage]"]) simp
next
  case False
  let ?f = "w_argv w ! 1"
  let ?g = "get_question w (prints [MsgBanner] s)"
  obtain e1 where tg: "trace (snd ?g) = trace s @ Print MsgBanner # e1"
    and e1: "filter is_WriteFile e1 = []" "filter is_SubprocessRun e1 = []"
            "filter is_GenerateContent e1 = []"
    using get_question_trace [of w "prints [MsgBanner] s"] by auto
  show ?thesis
  proof (cases "fst ?g")
    case (Inl e)
    hence "trace (snd (main w s)) = trace s @ Print MsgBanner # e1"
      using False by (simp add: main_unfold Let_def tg)
    thus ?thesis using e1 by (intro exI [of _ "Print MsgBanner # e1"]) simp
  next
    case g: (Inr q)
    let ?m = "main_try w ?f q (snd ?g)"
    let ?sub = "SubprocessRun (converter_args (Path ?f)
               (joinpath (parent (Path ?f)) (stem (Path ?f) @ ''_output.toon'')))"
    let ?out = "joinpath (parent (Path ?f)) ''test_results.json''"
    obtain e2 where tm: "trace (snd ?m) = trace s @ Print MsgBanner # e1 @ e2"
      and sub: "filter is_SubprocessRun e2 = [] \<or> filter is_SubprocessRun e2 = [?sub]"
      and wr: "filter is_WriteFile e2 = []
        \<or> (\<exists>pre r post.
              e2 = pre @ map Print (display_results r) @ WriteFile ?out r # post
              \<and> filter is_WriteFile pre = [] \<and> filter is_WriteFile post = []
              \<and> length (filter is_GenerateContent pre) = 2
              \<and> (fst ?m = Inl KeyboardInterrupt \<longrightarrow> w_write w ?out r = Inl KeyboardInterrupt))"
      using main_try_trace [of w ?f q "snd ?g"] by (auto simp: tg)
    let ?e3 = "case fst ?m of Inl KeyboardInterrupt \<Rightarrow> [Print MsgInterrupted]
                | Inl (SystemExit n) \<Rightarrow> []
                | Inl (Exception e) \<Rightarrow> [Print (MsgError (str_exception e))]
                | Inr u \<Rightarrow> []"
    have tr: "trace (snd (main w s)) = trace s @ Print MsgBanner # e1 @ e2 @ ?e3"
      using False g tm
      by (simp add: main_unfold Let_def del: One_nat_def split: sum.splits base_exception.splits)
    have e3: "filter is_WriteFile ?e3 = []" "filter is_SubprocessRun ?e3 = []"
      by (simp_all split: sum.splits base_exception.splits)
    have sub': "filter is_SubprocessRun (Print MsgBanner # e1 @ e2 @ ?e3) = []
        \<or> filter is_SubprocessRun (Print MsgBanner # e1 @ e2 @ ?e3) = [?sub]"
      using sub e1 e3 by simp
    from wr show ?thesis
    proof
      assume "filter is_WriteFile e2 = []"
      hence "filter is_WriteFile (Print MsgBanner # e1 @ e2 @ ?e3) = []"
        using e1 e3 by simp
      thus ?thesis using tr sub' by blast
    next
      assume "\<exists>pre r post.
              e2 = pre @ map Print (display_results r) @ WriteFile ?out r # post
              \<and> filter is_WriteFile pre = [] \<and> filter is_WriteFile post = []
              \<and> length (filter is_GenerateContent pre) = 2
              \<and> (fst ?m = Inl KeyboardInterrupt \<longrightarrow> w_write w ?out r = Inl KeyboardInterrupt)"
      then obtain pre r post where
        e2: "e2 = pre @ map Print (display_results r) @ WriteFile ?out r # post"
        and p: "filter is_WriteFile pre = []" "filter is_WriteFile post = []"
               "length (filter is_GenerateContent pre) = 2"
        by blast
      have shape: "Print MsgBanner # e1 @ e2 @ ?e3 =
          (Print MsgBanner # e1 @ pre) @ map Print (display_results r)
             @ WriteFile ?out r # (post @ ?e3)"
        by (simp add: e2)
      have p': "filter is_WriteFile (Print MsgBanner # e1 @ pre) = []"
        "filter is_WriteFile (post @ ?e3) = []"
        "length (filter is_GenerateContent (Print MsgBanner # e1 @ pre)) = 2"
        using p e1 e3 by simp_all
      show ?thesis
        apply (rule exI [of _ "Print MsgBanner # e1 @ e2 @ ?e3"])
        apply (intro conjI)
          apply (rule tr)
         apply (rule sub')
        apply (rule disjI2)
        apply (rule exI [of _ "Print MsgBanner # e1 @ pre"], rule exI [of _ r],
               rule exI [of _ "post @ ?e3"])
        using shape p' apply blast
        done
    qed
  qed
qed

lemma no_WriteFile: "filter is_WriteFile xs = [] \<Longrightarrow> WriteFile p r \<notin> set xs"
  by (auto simp: filter_empty_conv)

lemma WriteFile_unique:
  assumes "WriteFile p r \<in> set (pre @ map Print ms @ WriteFile p' r' # post)"
      and "filter is_WriteFile pre = []" and "filter is_WriteFile post = []"
    shows "p = p' \<and> r = r'"
  using assms no_WriteFile [of pre p r] no_WriteFile [of post p r] by auto

lemma main_writes:
  assumes "WriteFile p r \<in> set (trace (snd (main w (start t))))"
  shows "\<exists>pre post. trace (snd (main w (start t)))
                       = pre @ map Print (display_results r) @ WriteFile p r # post
           \<and> filter is_WriteFile pre = [] \<and> filter is_WriteFile post = []
           \<and> length (filter is_GenerateContent pre) = 2"
proof -
  let ?out = "joinpath (parent (Path (w_argv w ! 1))) ''test_results.json''"
  obtain evs where tr: "trace (snd (main w (start t))) = evs"
    and wr: "filter is_WriteFile evs = []
        \<or> (\<exists>pre r post.
              evs = pre @ map Print (display_results r) @ WriteFile ?out r # post
              \<and> filter is_WriteFile pre = [] \<and> filter is_WriteFile post = []
              \<and> length (filter is_GenerateContent pre) = 2)"
    using main_trace [of w "start t"] by (auto simp: start_def)
  from wr show ?thesis
  proof
    assume "filter is_WriteFile evs = []"
    thus ?thesis using assms tr no_WriteFile by metis
  next
    assume "\<exists>pre r post.
              evs = pre @ map Print (display_results r) @ WriteFile ?out r # post
              \<and> filter is_WriteFile pre = [] \<and> filter is_WriteFile post = []
              \<and> length (filter is_GenerateContent pre) = 2"
    then obtain pre r' post where
      e: "evs = pre @ map Print (display_results r') @ WriteFile ?out r' # post"
      and p: "filter is_WriteFile pre = []" "filter is_WriteFile post = []"
             "length (filter is_GenerateContent pre) = 2"
      by blast
    have "p = ?out \<and> r = r'"
      using assms p(1,2) unfolding tr e by (rule WriteFile_unique)
    thus ?thesis using tr e p by blast
  qed
qed

lemma main_interrupted:
  assumes a: "2 \<le> length (w_argv w)"
      and g: "get_question w (prints [MsgBanner] (start t)) = (Inr q, s2)"
      and k: "fst (main_try w (w_argv w ! 1) q s2) = Inl KeyboardInterrupt"
    shows "fst (main w (start t)) = Inl (SystemExit 0)"
      and "trace (snd (main w (start t)))
             = trace (snd (main_try w (w_argv w ! 1) q s2)) @ [Print MsgInterrupted]"
  using a g k by (simp_all add: main_unfold Let_def del: One_nat_def)

lemmas run_simps =
  main_def get_question_def main_try_def init_def convert_to_toon_def load_contents_def
  run_test_def query_llm_def query_llm_try_def converter_args_def save_results_def Let_def

section \<open>The format converter\<close>

text \<open>
  Claim C8. \<open>convert_to_toon\<close> starts the converter once, with the argument list
  \<open>npx @toon-format/cli <input> -o <output>\<close>, where the input is the JSON path and
  the output is the input's parent directory joined with the input's stem followed by
  \<open>_output.toon\<close>; on success that output path is returned and stored. In a whole run
  of \<open>main\<close> the converter is started at most once, and then with these arguments
  for the path given on the command line.
\<close>

theorem converter_invocation:
  "(\<exists>ms. trace (snd (convert_to_toon w self s)) =
      trace s @ [Print (MsgConverting (name (json_file_path self))),
                 SubprocessRun [''npx'', ''@toon-format/cli'', str_path (json_file_path self),
                    ''-o'',
                    str_path (joinpath (parent (json_file_path self))
                       (stem (json_file_path self) @ ''_output.toon''))]] @ map Print ms)
   \<and> (\<forall>p self'. fst (convert_to_toon w self s) = Inr (p, self') \<longrightarrow>
         p = joinpath (parent (json_file_path self)) (stem (json_file_path self) @ ''_output.toon'')
         \<and> toon_file_path self' = Some p)
   \<and> (filter is_SubprocessRun (trace (snd (main w (start t)))) = []
      \<or> filter is_SubprocessRun (trace (snd (main w (start t)))) =
            [SubprocessRun [''npx'', ''@toon-format/cli'', str_path (Path (w_argv w ! 1)), ''-o'',
               str_path (joinpath (parent (Path (w_argv w ! 1)))
                  (stem (Path (w_argv w ! 1)) @ ''_output.toon''))]])
   \<and> str_path (joinpath (parent (Path ''dir/data.json''))
                 (stem (Path ''dir/data.json'') @ ''_output.toon''))
       = ''dir/data_output.toon''"
proof -
  have a: "\<exists>ms. trace (snd (convert_to_toon w self s)) =
      trace s @ [Print (MsgConverting (name (json_file_path self))),
                 SubprocessRun [''npx'', ''@toon-format/cli'', str_path (json_file_path self),
                    ''-o'',
                    str_path (joinpath (parent (json_file_path self))
                       (stem (json_file_path self) @ ''_output.toon''))]] @ map Print ms"
    using convert_trace [of w self s] by (simp add: converter_args_def)
  have b: "\<forall>p self'. fst (convert_to_toon w self s) = Inr (p, self') \<longrightarrow>
         p = joinpath (parent (json_file_path self)) (stem (json_file_path self) @ ''_output.toon'')
         \<and> toon_file_path self' = Some p"
    using convert_result [of w self s] by auto
  have c: "filter is_SubprocessRun (trace (snd (main w (start t)))) = []
      \<or> filter is_SubprocessRun (trace (snd (main w (start t)))) =
            [SubprocessRun [''npx'', ''@toon-format/cli'', str_path (Path (w_argv w ! 1)), ''-o'',
               str_path (joinpath (parent (Path (w_argv w ! 1)))
                  (stem (Path (w_argv w ! 1)) @ ''_output.toon''))]]"
    using main_trace [of w "start t"] by (auto simp: start_def converter_args_def)
  have d: "str_path (joinpath (parent (Path ''dir/data.json''))
                 (stem (Path ''dir/data.json'') @ ''_output.toon''))
       = ''dir/data_output.toon''"
    by (simp add: path_simps Let_def)
  show ?thesis using a b c d by blast
qed

theorem converter_invocation_witness:
  "fst (convert_to_toon quiet_world sample_test (start 0))
     = Inr (Path ''dir/data_output.toon'',
            sample_test\<lparr>toon_file_path := Some (Path ''dir/data_output.toon'')\<rparr>)
   \<and> filter is_SubprocessRun (trace (snd (main asking_world (start 0))))
       = [SubprocessRun [''npx'', ''@toon-format/cli'', ''dir/data.json'', ''-o'',
                         ''dir/data_output.toon'']]"
proof -
  have r: "fst (convert_to_toon quiet_world sample_test (start 0))
     = Inr (Path ''dir/data_output.toon'',
            sample_test\<lparr>toon_file_path := Some (Path ''dir/data_output.toon'')\<rparr>)"
    by (simp add: convert_to_toon_def converter_args_def Let_def world_simps path_simps)
  have p: "Path ''dir/data_output.toon''
       = joinpath (parent (json_file_path sample_test))
           (stem (json_file_path sample_test) @ ''_output.toon'')
     \<and> toon_file_path (sample_test\<lparr>toon_file_path := Some (Path ''dir/data_output.toon'')\<rparr>)
       = Some (Path ''dir/data_output.toon'')"
    using converter_invocation [where w = quiet_world and self = sample_test and s = "start 0"] r
    by blast
  have m: "filter is_SubprocessRun (trace (snd (main asking_world (start 0))))
       = [SubprocessRun [''npx'', ''@toon-format/cli'', ''dir/data.json'', ''-o'',
                         ''dir/data_output.toon'']]"
    by (simp add: run_simps world_simps path_simps)
  show ?thesis using r p m by simp
qed

section \<open>Running from the command line\<close>

text \<open>
  Claim C7. With a file argument and no question on the command line, when the line
  read at the prompt is empty or whitespace throughout, so that nothing is left of it
  after \<open>strip\<close>, \<open>main\<close> ends in \<open>sys.exit(1)\<close>; reading that line is its only
  contact with the outside, so no path was checked (no \<open>TOONParsingTest\<close> was
  constructed) and no converter was started, and the last thing printed is the message
  that no question was provided.
\<close>

theorem empty_question_exits:
  assumes "length (w_argv w) = 2" and "w_input w = Inr line" and "list_all isspace line"
  shows "strip line = []
     \<and> fst (main w (start t)) = Inl (SystemExit 1)
     \<and> effects (trace (snd (main w (start t)))) = [ReadInput]
     \<and> filter is_SubprocessRun (trace (snd (main w (start t)))) = []
     \<and> last (trace (snd (main w (start t)))) = Print MsgNoQuestion"
proof -
  have e: "strip line = []" using assms(3) by (simp add: strip_empty_iff)
  show ?thesis using assms(1,2) e
    by (simp add: main_def get_question_def Let_def start_def)
qed

theorem empty_question_exits_witness:
  "length (w_argv quiet_world) = 2 \<and> w_input quiet_world = Inr ''  ''
   \<and> list_all isspace ''  ''
   \<and> fst (main quiet_world (start 0)) = Inl (SystemExit 1)
   \<and> effects (trace (snd (main quiet_world (start 0)))) = [ReadInput]
   \<and> list_all isspace [CHR 0xA0, CHR 0x09]
   \<and> fst (main (quiet_world\<lparr>w_input := Inr [CHR 0xA0, CHR 0x09]\<rparr>) (start 0))
       = Inl (SystemExit 1)
   \<and> fst (main (quiet_world\<lparr>w_input := Inr []\<rparr>) (start 0)) = Inl (SystemExit 1)"
proof -
  have h: "length (w_argv quiet_world) = 2" "w_input quiet_world = Inr ''  ''"
    "list_all isspace ''  ''"
    by (simp_all add: world_simps str_simps)
  have k: "length (w_argv (quiet_world\<lparr>w_input := Inr [CHR 0xA0, CHR 0x09]\<rparr>)) = 2"
    "w_input (quiet_world\<lparr>w_input := Inr [CHR 0xA0, CHR 0x09]\<rparr>) = Inr [CHR 0xA0, CHR 0x09]"
    "list_all isspace [CHR 0xA0, CHR 0x09]"
    by (simp_all add: world_simps str_simps)
  have n: "length (w_argv (quiet_world\<lparr>w_input := Inr []\<rparr>)) = 2"
    "w_input (quiet_world\<lparr>w_input := Inr []\<rparr>) = Inr []"
    "list_all isspace []"
    by (simp_all add: world_simps)
  show ?thesis
    using h k empty_question_exits [OF h, of 0] empty_question_exits [OF k, of 0]
      empty_question_exits [OF n, of 0]
    by simp
qed

text \<open>
  Claim C6, as the code has it. When a \<open>KeyboardInterrupt\<close> leaves the body of the
  \<open>try\<close> in \<open>main\<close> (lines 282 to 297, from the constructor to the save step), the
  process ends in \<open>sys.exit(0)\<close> after printing that the test was interrupted, and if
  the result file was written to at all, it is the write itself that was interrupted:
  an interrupt before the save step leaves no write. In any run the result file is
  written at most once, after two dispatches and after everything \<open>display_results\<close>
  prints for the record that is written.
\<close>

theorem interrupt_exit:
  "(2 \<le> length (w_argv w)
      \<and> get_question w (prints [MsgBanner] (start t)) = (Inr q, s2)
      \<and> fst (main_try w (w_argv w ! 1) q s2) = Inl KeyboardInterrupt
     \<longrightarrow> fst (main w (start t)) = Inl (SystemExit 0)
        \<and> last (trace (snd (main w (start t)))) = Print MsgInterrupted
        \<and> (\<forall>p r. WriteFile p r \<in> set (trace (snd (main w (start t))))
              \<longrightarrow> w_write w p r = Inl KeyboardInterrupt))
   \<and> (\<forall>p r. WriteFile p r \<in> set (trace (snd (main w (start t)))) \<longrightarrow>
         (\<exists>pre post. trace (snd (main w (start t)))
                       = pre @ map Print (display_results r) @ WriteFile p r # post
           \<and> filter is_WriteFile pre = [] \<and> filter is_WriteFile post = []
           \<and> length (filter is_GenerateContent pre) = 2))"
proof -
  have A: "fst (main w (start t)) = Inl (SystemExit 0)
        \<and> last (trace (snd (main w (start t)))) = Print MsgInterrupted
        \<and> (\<forall>p r. WriteFile p r \<in> set (trace (snd (main w (start t))))
              \<longrightarrow> w_write w p r = Inl KeyboardInterrupt)"
    if a: "2 \<le> length (w_argv w)"
      and g: "get_question w (prints [MsgBanner] (start t)) = (Inr q, s2)"
      and k: "fst (main_try w (w_argv w ! 1) q s2) = Inl KeyboardInterrupt"
  proof -
    let ?f = "w_argv w ! 1"
    let ?out = "joinpath (parent (Path ?f)) ''test_results.json''"
    note m = main_interrupted [OF a g k]
    obtain e1 where t2: "trace s2 = Print MsgBanner # e1" and e1: "filter is_WriteFile e1 = []"
      using get_question_trace [of w "prints [MsgBanner] (start t)"] g
      by (auto simp: start_def)
    obtain evs where te: "trace (snd (main_try w ?f q s2)) = trace s2 @ evs"
      and wr: "filter is_WriteFile evs = []
        \<or> (\<exists>pre r post.
              evs = pre @ map Print (display_results r) @ WriteFile ?out r # post
              \<and> filter is_WriteFile pre = [] \<and> filter is_WriteFile post = []
              \<and> length (filter is_GenerateContent pre) = 2
              \<and> (fst (main_try w ?f q s2) = Inl KeyboardInterrupt
                   \<longrightarrow> w_write w ?out r = Inl KeyboardInterrupt))"
      using main_try_trace [of w ?f q s2] by blast
    have w: "w_write w p r = Inl KeyboardInterrupt"
      if mem: "WriteFile p r \<in> set (trace (snd (main w (start t))))" for p r
    proof -
      have in_evs: "WriteFile p r \<in> set evs"
      proof -
        have "WriteFile p r \<in> set (Print MsgBanner # e1 @ evs @ [Print MsgInterrupted])"
          using mem unfolding m(2) te t2 by simp
        thus ?thesis using no_WriteFile [OF e1, of p r] by auto
      qed
      from wr show ?thesis
      proof
        assume "filter is_WriteFile evs = []"
        thus ?thesis using in_evs no_WriteFile by metis
      next
        assume "\<exists>pre r post.
              evs = pre @ map Print (display_results r) @ WriteFile ?out r # post
              \<and> filter is_WriteFile pre = [] \<and> filter is_WriteFile post = []
              \<and> length (filter is_GenerateContent pre) = 2
              \<and> (fst (main_try w ?f q s2) = Inl KeyboardInterrupt
                   \<longrightarrow> w_write w ?out r = Inl KeyboardInterrupt)"
        then obtain pre r' post where
          e: "evs = pre @ map Print (display_results r') @ WriteFile ?out r' # post"
          and p: "filter is_WriteFile pre = []" "filter is_WriteFile post = []"
          and ki: "w_write w ?out r' = Inl KeyboardInterrupt"
          using k by blast
        have "p = ?out \<and> r = r'"
          using in_evs p unfolding e by (rule WriteFile_unique)
        thus ?thesis using ki by simp
      qed
    qed
    show ?thesis using m w by simp
  qed
  show ?thesis using A main_writes by blast
qed

theorem interrupt_exit_witness:
  "2 \<le> length (w_argv interrupted_world)
   \<and> get_question interrupted_world (prints [MsgBanner] (start 0))
       = (Inr ''How many?'', prints [MsgBanner] (start 0))
   \<and> fst (main_try interrupted_world (w_argv interrupted_world ! 1) ''How many?''
            (prints [MsgBanner] (start 0))) = Inl KeyboardInterrupt
   \<and> fst (main interrupted_world (start 0)) = Inl (SystemExit 0)
   \<and> filter is_WriteFile (trace (snd (main interrupted_world (start 0)))) = []
   \<and> fst (main asking_world (start 0)) = Inr ()
   \<and> WriteFile (Path ''dir/test_results.json'')
        \<lparr>question = ''How many?'', json_response = ''42'', json_time = 1,
          toon_response = ''42'', toon_time = 1\<rparr>
       \<in> set (trace (snd (main asking_world (start 0))))
   \<and> length (filter is_GenerateContent (trace (snd (main asking_world (start 0))))) = 2
   \<and> fst (main late_interrupt_world (start 0)) = Inl (SystemExit 0)
   \<and> filter is_WriteFile (trace (snd (main late_interrupt_world (start 0))))
       = [WriteFile (Path ''dir/test_results.json'')
            \<lparr>question = ''How many?'', json_response = ''42'', json_time = 1,
              toon_response = ''42'', toon_time = 1\<rparr>]
   \<and> w_write late_interrupt_world (Path ''dir/test_results.json'')
         \<lparr>question = ''How many?'', json_response = ''42'', json_time = 1,
           toon_response = ''42'', toon_time = 1\<rparr> = Inl KeyboardInterrupt"
proof -
  have h: "2 \<le> length (w_argv interrupted_world)"
    "get_question interrupted_world (prints [MsgBanner] (start 0))
       = (Inr ''How many?'', prints [MsgBanner] (start 0))"
    "fst (main_try interrupted_world (w_argv interrupted_world ! 1) ''How many?''
            (prints [MsgBanner] (start 0))) = Inl KeyboardInterrupt"
    by (simp_all add: run_simps world_simps path_simps)
  have c: "fst (main interrupted_world (start 0)) = Inl (SystemExit 0)"
    using interrupt_exit [where w = interrupted_world and t = 0 and q = "''How many?''"
                      and ?s2.0 = "prints [MsgBanner] (start 0)"] h
    by blast
  have e: "filter is_WriteFile (trace (snd (main interrupted_world (start 0)))) = []"
    by (simp add: run_simps world_simps path_simps)
  have a: "fst (main asking_world (start 0)) = Inr ()"
    "WriteFile (Path ''dir/test_results.json'')
        \<lparr>question = ''How many?'', json_response = ''42'', json_time = 1,
          toon_response = ''42'', toon_time = 1\<rparr>
       \<in> set (trace (snd (main asking_world (start 0))))"
    "length (filter is_GenerateContent (trace (snd (main asking_world (start 0))))) = 2"
    by (simp_all add: run_simps world_simps path_simps str_simps)
  have l: "fst (main late_interrupt_world (start 0)) = Inl (SystemExit 0)"
    "filter is_WriteFile (trace (snd (main late_interrupt_world (start 0))))
       = [WriteFile (Path ''dir/test_results.json'')
            \<lparr>question = ''How many?'', json_response = ''42'', json_time = 1,
              toon_response = ''42'', toon_time = 1\<rparr>]"
    "w_write late_interrupt_world (Path ''dir/test_results.json'')
         \<lparr>question = ''How many?'', json_response = ''42'', json_time = 1,
           toon_response = ''42'', toon_time = 1\<rparr> = Inl KeyboardInterrupt"
    by (simp_all add: run_simps world_simps path_simps str_simps)
  show ?thesis using h c e a l by simp
qed

text \<open>
  Claim C6 as stated fails: the prompt for the question (line 274) is outside the
  \<open>try\<close>. When the user interrupts the process while \<open>input()\<close> waits, the
  \<open>KeyboardInterrupt\<close> leaves \<open>main\<close> unhandled: \<open>main\<close> does not end in
  \<open>sys.exit(0)\<close> and the message of the handler is not printed.
\<close>

theorem prompt_interrupt_unhandled:
  "length (w_argv prompt_interrupt_world) = 2
   \<and> w_input prompt_interrupt_world = Inl KeyboardInterrupt
   \<and> fst (main prompt_interrupt_world (start 0)) = Inl KeyboardInterrupt
   \<and> fst (main prompt_interrupt_world (start 0)) \<noteq> Inl (SystemExit 0)
   \<and> Print MsgInterrupted \<notin> set (trace (snd (main prompt_interrupt_world (start 0))))
   \<and> effects (trace (snd (main prompt_interrupt_world (start 0)))) = [ReadInput]"
  by (simp add: main_def get_question_def Let_def world_simps get_sample_questions_def
      comp_def)

end
